theory Spec2Isabelle
  imports Complex_Main
begin

section \<open>Text\<close>

text \<open>
  The texts that come in (the request text, the raw text of the model, the entities) are
  modelled as HOL strings, one \<^typ>\<open>char\<close> per code unit below 256. The strings inside a
  value that \<open>JSON.parse\<close> returns are lists of UTF-16 code units, since an escape can
  name any code unit; \<open>str\<close> gives the code units of a HOL string.
  \<open>is_js_space\<close> is the white space of \<open>String.prototype.trim\<close> and of the regular
  expression class \<open>\s\<close> below 256: tab, line feed, vertical tab, form feed, carriage
  return, space and no-break space.
\<close>

definition str :: "string \<Rightarrow> nat list" where
  "str s = map of_char s"

definition is_js_space :: "char \<Rightarrow> bool" where
  "is_js_space c \<longleftrightarrow>
     c = CHR 0x09 \<or> c = CHR 0x0A \<or> c = CHR 0x0B \<or> c = CHR 0x0C \<or> c = CHR 0x0D \<or>
     c = CHR 0x20 \<or> c = CHR 0xA0"

definition js_trim :: "string \<Rightarrow> string" where
  "js_trim s = rev (dropWhile is_js_space (rev (dropWhile is_js_space s)))"

text \<open>Truthiness of a value of TypeScript type \<open>string | null | undefined\<close>.\<close>

definition truthy :: "string option \<Rightarrow> bool" where
  "truthy v = (case v of None \<Rightarrow> False | Some s \<Rightarrow> s \<noteq> [])"

text \<open>\<open>s.split(sep)\<close> for a one-character separator, and \<open>xs.join(sep)\<close>.\<close>

fun split :: "char \<Rightarrow> string \<Rightarrow> string list" where
  "split sep [] = [[]]"
| "split sep (c # cs) =
     (if c = sep then [] # split sep cs
      else (case split sep cs of p # ps \<Rightarrow> (c # p) # ps | [] \<Rightarrow> [[c]]))"

fun join :: "string \<Rightarrow> string list \<Rightarrow> string" where
  "join sep [] = []"
| "join sep [x] = x"
| "join sep (x # y # ys) = x @ sep @ join sep (y # ys)"

fun starts_with :: "string \<Rightarrow> string \<Rightarrow> bool" where
  "starts_with [] s = True"
| "starts_with (p # ps) [] = False"
| "starts_with (p # ps) (c # cs) = (p = c \<and> starts_with ps cs)"

section \<open>JSON values and \<open>JSON.parse\<close>\<close>

text \<open>
  A number is kept as the exact rational its literal denotes. An object is an association
  list with distinct keys, in the order in which JavaScript enumerates them. The type
  parameter is the type of the code units: \<^typ>\<open>nat\<close> in a value that \<open>JSON.parse\<close>
  returns, \<^typ>\<open>char\<close> in the body of a request.
\<close>

datatype 'c json =
    JNull
  | JBool bool
  | JNumber rat
  | JString "'c list"
  | JArray "'c json list"
  | JObject "('c list \<times> 'c json) list"

datatype token =
    LBrace | RBrace | LBracket | RBracket | Colon | Comma
  | TNull | TTrue | TFalse | TString "nat list" | TNumber rat

definition is_digit :: "char \<Rightarrow> bool" where
  "is_digit c \<longleftrightarrow> (48::nat) \<le> of_char c \<and> of_char c \<le> (57::nat)"

definition digits_val :: "string \<Rightarrow> nat" where
  "digits_val ds = foldl (\<lambda>a c. 10 * a + (of_char c - 48)) 0 ds"

definition pow10 :: "int \<Rightarrow> rat" where
  "pow10 k = (if 0 \<le> k then 10 ^ nat k else 1 / 10 ^ nat (- k))"

definition hex_val :: "char \<Rightarrow> nat option" where
  "hex_val c =
     (let n = of_char c :: nat in
      if 48 \<le> n \<and> n \<le> 57 then Some (n - 48)
      else if 65 \<le> n \<and> n \<le> 70 then Some (n - 55)
      else if 97 \<le> n \<and> n \<le> 102 then Some (n - 87)
      else None)"

definition hex4 :: "char \<Rightarrow> char \<Rightarrow> char \<Rightarrow> char \<Rightarrow> nat option" where
  "hex4 a b c d =
     (case (hex_val a, hex_val b, hex_val c, hex_val d) of
        (Some w, Some x, Some y, Some z) \<Rightarrow> Some (4096 * w + 256 * x + 16 * y + z)
      | _ \<Rightarrow> None)"

text \<open>The single-character escapes of a JSON string.\<close>

definition unescape :: "char \<Rightarrow> char option" where
  "unescape e =
     (if e = CHR 0x22 then Some (CHR 0x22)
      else if e = CHR 0x5C then Some (CHR 0x5C)
      else if e = CHR ''/'' then Some (CHR ''/'')
      else if e = CHR ''b'' then Some (CHR 0x08)
      else if e = CHR ''f'' then Some (CHR 0x0C)
      else if e = CHR ''n'' then Some (CHR 0x0A)
      else if e = CHR ''r'' then Some (CHR 0x0D)
      else if e = CHR ''t'' then Some (CHR 0x09)
      else None)"

text \<open>
  The value of a number lexeme, \<open>None\<close> when the lexeme is not a JSON number:
  an optional minus, an integer part without a leading zero, an optional fraction, an
  optional exponent.
\<close>

definition exponent_of :: "string \<Rightarrow> int option" where
  "exponent_of s =
     (case s of
        [] \<Rightarrow> Some 0
      | c # r \<Rightarrow>
          if c = CHR ''e'' \<or> c = CHR ''E'' then
            (let (eneg, ds) =
               (case r of
                  [] \<Rightarrow> (False, [])
                | d # r' \<Rightarrow>
                    if d = CHR ''-'' then (True, r')
                    else if d = CHR ''+'' then (False, r') else (False, r))
             in if ds \<noteq> [] \<and> list_all is_digit ds
                then Some ((if eneg then - 1 else 1) * int (digits_val ds)) else None)
          else None)"

definition number_of :: "string \<Rightarrow> rat option" where
  "number_of s =
     (let (neg, s1) =
        (case s of [] \<Rightarrow> (False, [])
         | c # r \<Rightarrow> if c = CHR ''-'' then (True, r) else (False, s));
          ip = takeWhile is_digit s1;
          s2 = dropWhile is_digit s1;
          (fp, s3, frac_ok) =
            (case s2 of [] \<Rightarrow> ([], [], True)
             | c # r \<Rightarrow>
                 if c = CHR ''.''
                 then (takeWhile is_digit r, dropWhile is_digit r, takeWhile is_digit r \<noteq> [])
                 else ([], s2, True))
      in if ip = [] \<or> (1 < length ip \<and> hd ip = CHR ''0'') \<or> \<not> frac_ok then None
         else (case exponent_of s3 of
                 None \<Rightarrow> None
               | Some e \<Rightarrow>
                   Some ((if neg then - 1 else 1) * of_nat (digits_val (ip @ fp))
                         * pow10 (e - int (length fp)))))"

definition is_number_char :: "char \<Rightarrow> bool" where
  "is_number_char c \<longleftrightarrow>
     is_digit c \<or> c = CHR ''+'' \<or> c = CHR ''-'' \<or> c = CHR ''.'' \<or> c = CHR ''e'' \<or> c = CHR ''E''"

definition is_json_ws :: "char \<Rightarrow> bool" where
  "is_json_ws c \<longleftrightarrow> c = CHR 0x20 \<or> c = CHR 0x09 \<or> c = CHR 0x0A \<or> c = CHR 0x0D"

definition emit :: "token \<Rightarrow> token list option \<Rightarrow> token list option" where
  "emit t r = map_option ((#) t) r"

text \<open>
  The lexer. A string literal and a number lexeme are gathered character by character
  (the accumulators are reversed). A string literal gives its code units: a character
  stands for itself, an escape \<open>\uXXXX\<close> for the code unit it names.
\<close>

fun lex :: "string \<Rightarrow> token list option"
  and lex_string :: "nat list \<Rightarrow> string \<Rightarrow> token list option"
  and lex_number :: "string \<Rightarrow> string \<Rightarrow> token list option"
where
  "lex [] = Some []"
| "lex (c # cs) =
     (if is_json_ws c then lex cs
      else if c = CHR ''{'' then emit LBrace (lex cs)
      else if c = CHR ''}'' then emit RBrace (lex cs)
      else if c = CHR ''['' then emit LBracket (lex cs)
      else if c = CHR '']'' then emit RBracket (lex cs)
      else if c = CHR '':'' then emit Colon (lex cs)
      else if c = CHR '','' then emit Comma (lex cs)
      else if c = CHR 0x22 then lex_string [] cs
      else if c = CHR ''-'' \<or> is_digit c then lex_number [c] cs
      else if c = CHR ''n'' then
        (case cs of x # y # z # r \<Rightarrow>
           if [x, y, z] = ''ull'' then emit TNull (lex r) else None
         | _ \<Rightarrow> None)
      else if c = CHR ''t'' then
        (case cs of x # y # z # r \<Rightarrow>
           if [x, y, z] = ''rue'' then emit TTrue (lex r) else None
         | _ \<Rightarrow> None)
      else if c = CHR ''f'' then
        (case cs of w # x # y # z # r \<Rightarrow>
           if [w, x, y, z] = ''alse'' then emit TFalse (lex r) else None
         | _ \<Rightarrow> None)
      else None)"
| "lex_string acc [] = None"
| "lex_string acc (c # cs) =
     (if c = CHR 0x22 then emit (TString (rev acc)) (lex cs)
      else if c = CHR 0x5C then
        (case cs of
           [] \<Rightarrow> None
         | e # r \<Rightarrow>
             if e = CHR ''u'' then
               (case r of h1 # h2 # h3 # h4 # r' \<Rightarrow>
                  (case hex4 h1 h2 h3 h4 of
                     None \<Rightarrow> None
                   | Some n \<Rightarrow> lex_string (n # acc) r')
                | _ \<Rightarrow> None)
             else (case unescape e of
                     None \<Rightarrow> None
                   | Some x \<Rightarrow> lex_string (of_char x # acc) r))
      else if (of_char c :: nat) < 32 then None
      else lex_string (of_char c # acc) cs)"
| "lex_number acc [] =
     (case number_of (rev acc) of None \<Rightarrow> None | Some q \<Rightarrow> Some [TNumber q])"
| "lex_number acc (c # cs) =
     (if is_number_char c then lex_number (c # acc) cs
      else (case number_of (rev acc) of
              None \<Rightarrow> None
            | Some q \<Rightarrow> emit (TNumber q) (lex (c # cs))))"

text \<open>
  The parser is a pushdown automaton over the tokens: a stack of open containers (their
  members so far, reversed) and what may come next.
\<close>

datatype frame =
    InArray "nat json list"
  | InObject "(nat list \<times> nat json) list" "nat list option"

datatype expect =
    Value | ValueOrEnd | KeyOrEnd | Key | AfterKey | AfterValue | Done "nat json"

text \<open>A repeated key keeps its first position and takes the later value.\<close>

fun put ::
  "nat list \<Rightarrow> nat json \<Rightarrow> (nat list \<times> nat json) list \<Rightarrow> (nat list \<times> nat json) list" where
  "put k v [] = [(k, v)]"
| "put k v ((k', v') # kvs) = (if k' = k then (k, v) # kvs else (k', v') # put k v kvs)"

text \<open>
  The keys of an object come in the order of JavaScript: first the keys that are array
  indices (a canonical decimal numeral below \<open>2\<^sup>3\<^sup>2 - 1\<close>), ascending, then the other
  keys in the order in which they were created.
\<close>

definition digit_units_val :: "nat list \<Rightarrow> nat" where
  "digit_units_val ds = foldl (\<lambda>a c. 10 * a + (c - 48)) 0 ds"

definition is_array_index :: "nat list \<Rightarrow> bool" where
  "is_array_index k \<longleftrightarrow>
     k \<noteq> [] \<and> list_all (\<lambda>c. 48 \<le> c \<and> c \<le> 57) k \<and> (k = [48] \<or> hd k \<noteq> 48)
     \<and> digit_units_val k < 4294967295"

definition own_keys_order :: "(nat list \<times> nat json) list \<Rightarrow> (nat list \<times> nat json) list" where
  "own_keys_order kvs =
     sort_key (\<lambda>(k, v). digit_units_val k) (filter (\<lambda>(k, v). is_array_index k) kvs)
     @ filter (\<lambda>(k, v). \<not> is_array_index k) kvs"

definition object_of :: "(nat list \<times> nat json) list \<Rightarrow> nat json" where
  "object_of kvs = JObject (own_keys_order (foldl (\<lambda>obj (k, v). put k v obj) [] kvs))"

definition push_value :: "nat json \<Rightarrow> frame list \<Rightarrow> (frame list \<times> expect) option" where
  "push_value v st =
     (case st of
        [] \<Rightarrow> Some ([], Done v)
      | InArray acc # st' \<Rightarrow> Some (InArray (v # acc) # st', AfterValue)
      | InObject acc None # st' \<Rightarrow> None
      | InObject acc (Some k) # st' \<Rightarrow> Some (InObject ((k, v) # acc) None # st', AfterValue))"

definition value_token :: "frame list \<Rightarrow> token \<Rightarrow> (frame list \<times> expect) option" where
  "value_token st t =
     (case t of
        LBrace \<Rightarrow> Some (InObject [] None # st, KeyOrEnd)
      | LBracket \<Rightarrow> Some (InArray [] # st, ValueOrEnd)
      | TNull \<Rightarrow> push_value JNull st
      | TTrue \<Rightarrow> push_value (JBool True) st
      | TFalse \<Rightarrow> push_value (JBool False) st
      | TString s \<Rightarrow> push_value (JString s) st
      | TNumber q \<Rightarrow> push_value (JNumber q) st
      | _ \<Rightarrow> None)"

definition key_token :: "frame list \<Rightarrow> token \<Rightarrow> (frame list \<times> expect) option" where
  "key_token st t =
     (case (t, st) of
        (TString k, InObject acc None # st') \<Rightarrow> Some (InObject acc (Some k) # st', AfterKey)
      | _ \<Rightarrow> None)"

definition close_array :: "frame list \<Rightarrow> (frame list \<times> expect) option" where
  "close_array st =
     (case st of InArray acc # st' \<Rightarrow> push_value (JArray (rev acc)) st' | _ \<Rightarrow> None)"

definition close_object :: "frame list \<Rightarrow> (frame list \<times> expect) option" where
  "close_object st =
     (case st of
        InObject acc None # st' \<Rightarrow> push_value (object_of (rev acc)) st'
      | _ \<Rightarrow> None)"

definition step :: "frame list \<times> expect \<Rightarrow> token \<Rightarrow> (frame list \<times> expect) option" where
  "step s t =
     (case s of (st, m) \<Rightarrow>
       (case m of
          Done v \<Rightarrow> None
        | Value \<Rightarrow> value_token st t
        | ValueOrEnd \<Rightarrow> if t = RBracket then close_array st else value_token st t
        | KeyOrEnd \<Rightarrow> if t = RBrace then close_object st else key_token st t
        | Key \<Rightarrow> key_token st t
        | AfterKey \<Rightarrow> if t = Colon then Some (st, Value) else None
        | AfterValue \<Rightarrow>
            (case st of
               [] \<Rightarrow> None
             | InArray acc # st' \<Rightarrow>
                 if t = Comma then Some (st, Value)
                 else if t = RBracket then close_array st else None
             | InObject acc k # st' \<Rightarrow>
                 if t = Comma then Some (st, Key)
                 else if t = RBrace then close_object st else None)))"

fun run :: "frame list \<times> expect \<Rightarrow> token list \<Rightarrow> nat json option" where
  "run s [] = (case s of (st, Done v) \<Rightarrow> Some v | _ \<Rightarrow> None)"
| "run s (t # ts) = (case step s t of None \<Rightarrow> None | Some s' \<Rightarrow> run s' ts)"

text \<open>\<open>JSON.parse\<close>: \<open>None\<close> stands for the \<open>SyntaxError\<close> it throws.\<close>

definition JSON_parse :: "string \<Rightarrow> nat json option" where
  "JSON_parse s = (case lex s of None \<Rightarrow> None | Some ts \<Rightarrow> run ([], Value) ts)"

section \<open>JavaScript values\<close>

text \<open>Truthiness, \<open>typeof\<close> and property access on a parsed JSON value.\<close>

text \<open>
  A number literal is falsy when the double it rounds to is zero, that is, when its
  magnitude is at most 2 to the power -1075, half the least subnormal double.
\<close>

definition truthy_json :: "'c json \<Rightarrow> bool" where
  "truthy_json v =
     (case v of
        JNull \<Rightarrow> False
      | JBool b \<Rightarrow> b
      | JNumber q \<Rightarrow> \<not> \<bar>q\<bar> \<le> 1 / 2 ^ 1075
      | JString s \<Rightarrow> s \<noteq> []
      | JArray xs \<Rightarrow> True
      | JObject kvs \<Rightarrow> True)"

definition typeof :: "'c json \<Rightarrow> string" where
  "typeof v =
     (case v of
        JNull \<Rightarrow> ''object''
      | JBool b \<Rightarrow> ''boolean''
      | JNumber q \<Rightarrow> ''number''
      | JString s \<Rightarrow> ''string''
      | JArray xs \<Rightarrow> ''object''
      | JObject kvs \<Rightarrow> ''object'')"

text \<open>
  \<open>v.k\<close> for a key \<open>k\<close> that no prototype defines (the code reads \<open>intent\<close>,
  \<open>entities\<close>, \<open>targetCollection\<close>); \<open>None\<close> is \<open>undefined\<close>.
\<close>

definition property :: "'c json \<Rightarrow> 'c list \<Rightarrow> 'c json option" where
  "property v k = (case v of JObject kvs \<Rightarrow> map_of kvs k | _ \<Rightarrow> None)"

definition truthy_prop :: "'c json option \<Rightarrow> bool" where
  "truthy_prop p = (case p of None \<Rightarrow> False | Some v \<Rightarrow> truthy_json v)"

section \<open>The classifier adapter (server.ts)\<close>

subsection \<open>\<open>extractJsonFromString\<close>\<close>

text \<open>
  \<open>text.match(/```json\s*([\s\S]*?)\s*```|({[\s\S]*})/)\<close>. A match is looked for at
  each position from the left, the fence alternative before the brace alternative.

  At one position the fence alternative needs the opener \<open>```json\<close>; the greedy \<open>\s*\<close>
  takes the white space after it, the lazy group stops as early as the rest can still be
  white space and a closing \<open>```\<close>, so group 1 is the text up to the first closing fence
  without the white space around it. The brace alternative needs \<open>{\<close> and a later
  \<open>}\<close>; its greedy body runs to the last \<open>}\<close> of the text.
\<close>

record RegExpMatchArray =
  group1 :: "string option"
  group2 :: "string option"

fun before_fence :: "string \<Rightarrow> string option" where
  "before_fence [] = None"
| "before_fence (c # cs) =
     (if starts_with ''```'' (c # cs) then Some []
      else map_option ((#) c) (before_fence cs))"

definition fence_at :: "string \<Rightarrow> string option" where
  "fence_at s =
     (if starts_with ''```json'' s then
        (case before_fence (dropWhile is_js_space (drop 7 s)) of
           None \<Rightarrow> None
         | Some g \<Rightarrow> Some (rev (dropWhile is_js_space (rev g))))
      else None)"

definition upto_last_brace :: "string \<Rightarrow> string" where
  "upto_last_brace s = rev (dropWhile (\<lambda>c. c \<noteq> CHR ''}'') (rev s))"

definition brace_at :: "string \<Rightarrow> string option" where
  "brace_at s =
     (case s of
        [] \<Rightarrow> None
      | c # cs \<Rightarrow>
          if c = CHR ''{'' \<and> CHR ''}'' \<in> set cs then Some (c # upto_last_brace cs) else None)"

fun match_json :: "string \<Rightarrow> RegExpMatchArray option" where
  "match_json [] = None"
| "match_json (c # cs) =
     (case fence_at (c # cs) of
        Some g \<Rightarrow> Some \<lparr>group1 = Some g, group2 = None\<rparr>
      | None \<Rightarrow>
          (case brace_at (c # cs) of
             Some g \<Rightarrow> Some \<lparr>group1 = None, group2 = Some g\<rparr>
           | None \<Rightarrow> match_json cs))"

text \<open>\<open>jsonMatch[1] || jsonMatch[2]\<close>; \<open>None\<close> is \<open>undefined\<close>.\<close>

definition jsonString_of :: "RegExpMatchArray \<Rightarrow> string option" where
  "jsonString_of m = (if truthy (group1 m) then group1 m else group2 m)"

text \<open>
  The string a template literal or \<open>JSON.parse\<close> makes of a value that is a string or
  \<open>undefined\<close>.
\<close>

definition to_string :: "string option \<Rightarrow> string" where
  "to_string v = (case v of None \<Rightarrow> ''undefined'' | Some s \<Rightarrow> s)"

definition valid_structure :: "nat json \<Rightarrow> bool" where
  "valid_structure parsed \<longleftrightarrow>
     truthy_json parsed \<and> typeof parsed = ''object''
     \<and> truthy_prop (property parsed (str ''intent''))
     \<and> truthy_prop (property parsed (str ''entities''))
     \<and> property parsed (str ''targetCollection'') \<noteq> None"

definition extractJsonFromString :: "string \<Rightarrow> nat json option" where
  "extractJsonFromString text =
     (case match_json text of
        None \<Rightarrow> None
      | Some jsonMatch \<Rightarrow>
          (case JSON_parse (to_string (jsonString_of jsonMatch)) of
             None \<Rightarrow> None
           | Some parsed \<Rightarrow> if valid_structure parsed then Some parsed else None))"

subsection \<open>\<open>processTextWithGemini\<close>\<close>

text \<open>
  A thrown value is an \<open>Error\<close> with its message, or something that is not an
  \<open>Error\<close>. The model call is a parameter: \<open>generateContent\<close> rejects, or resolves with
  a response that carries \<open>promptFeedback?.blockReason\<close> and whose \<open>text()\<close> returns
  the raw text or throws (the field \<open>text_outcome\<close>). The response of a resolved call
  is an object, as the client library declares it, so the disjunct \<open>!response\<close> of the
  guard is never true. The prompt only reaches the model, whose outcome is given, and
  the console.
\<close>

datatype thrown = Error string | NonError

record GenerateContentResponse =
  blockReason :: "string option"
  text_outcome :: "thrown + string"

datatype GenerateContentResult = Rejected thrown | Resolved GenerateContentResponse

text \<open>
  The object \<open>{intent: 'unknown', entities: {}, targetCollection: null, error: msg}\<close>
  that both failure returns build.
\<close>

definition unknown_with_error :: "string \<Rightarrow> nat json" where
  "unknown_with_error msg =
     JObject [(str ''intent'', JString (str ''unknown'')), (str ''entities'', JObject []),
              (str ''targetCollection'', JNull), (str ''error'', JString (str msg))]"

text \<open>The body of the \<open>try\<close> block: \<open>Inl\<close> is a throw.\<close>

definition try_block :: "GenerateContentResult \<Rightarrow> thrown + nat json" where
  "try_block result =
     (case result of
        Rejected e \<Rightarrow> Inl e
      | Resolved response \<Rightarrow>
          if truthy (blockReason response) then
            Inr (unknown_with_error (''Content blocked due to '' @ to_string (blockReason response)))
          else
            (case text_outcome response of
               Inl e \<Rightarrow> Inl e
             | Inr responseText \<Rightarrow>
                 (case extractJsonFromString responseText of
                    None \<Rightarrow>
                      Inl (Error ''Failed to extract or parse valid JSON from Gemini response.'')
                  | Some parsedJson \<Rightarrow> Inr parsedJson)))"

definition errorMessage :: "thrown \<Rightarrow> string" where
  "errorMessage error =
     (case error of
        Error message \<Rightarrow> ''Gemini Processing Error: '' @ message
      | NonError \<Rightarrow> ''An unknown error occurred during Gemini processing.'')"

definition processTextWithGemini :: "GenerateContentResult \<Rightarrow> thrown + nat json" where
  "processTextWithGemini result =
     (case try_block result of
        Inl error \<Rightarrow> Inr (unknown_with_error (errorMessage error))
      | Inr response \<Rightarrow> Inr response)"

section \<open>Type definitions (server.ts)\<close>

text \<open>
  \<open>GeminiEntities\<close> and \<open>GeminiResponse\<close> as the interfaces declare them; \<open>None\<close> is
  \<open>null\<close> or a missing property, which the handler never tells apart. The field
  \<open>intent\<close> is any string: the cast \<open>parsed as GeminiResponse\<close> checks nothing, and
  \<open>extractJsonFromString\<close> only asks for a truthy \<open>intent\<close>.
\<close>

record GeminiEntities =
  name :: "string option"
  phoneNumber :: "string option"
  relationship :: "string option"
  description :: "string option"
  time :: "string option"

text \<open>What \<open>res.status(n).json({...})\<close> sends: the status and the members of the body.\<close>

record Response =
  status :: nat
  message :: string
  details :: "string option"
  intent :: "string option"
  entities :: "GeminiEntities option"

record GeminiResponse =
  intent :: string
  entities :: GeminiEntities
  targetCollection :: "string option"
  error :: "string option"

text \<open>
  The view of a JSON value at type \<open>GeminiResponse\<close>, defined where the value inhabits the
  interface (string or \<open>null\<close> members, \<open>entities\<close> an object) and its strings have
  code units below 256 only.
\<close>

definition chars_of :: "nat list \<Rightarrow> string option" where
  "chars_of u = (if list_all (\<lambda>n. n < 256) u then Some (map char_of u) else None)"

definition string_member :: "nat json \<Rightarrow> string \<Rightarrow> string option option" where
  "string_member v k =
     (case property v (str k) of
        None \<Rightarrow> Some None
      | Some JNull \<Rightarrow> Some None
      | Some (JString u) \<Rightarrow> map_option Some (chars_of u)
      | Some _ \<Rightarrow> None)"

definition as_GeminiEntities :: "nat json \<Rightarrow> GeminiEntities option" where
  "as_GeminiEntities v =
     (case v of
        JObject kvs \<Rightarrow>
          (case (string_member v ''name'', string_member v ''phoneNumber'',
                 string_member v ''relationship'', string_member v ''description'',
                 string_member v ''time'') of
             (Some n, Some p, Some r, Some d, Some t) \<Rightarrow>
               Some \<lparr>GeminiEntities.name = n, phoneNumber = p, relationship = r,
                     description = d, time = t\<rparr>
           | _ \<Rightarrow> None)
      | _ \<Rightarrow> None)"

definition as_GeminiResponse :: "nat json \<Rightarrow> GeminiResponse option" where
  "as_GeminiResponse v =
     (case (property v (str ''intent''), property v (str ''entities''),
            string_member v ''targetCollection'', string_member v ''error'') of
        (Some (JString u), Some e, Some tc, Some err) \<Rightarrow>
          (case (chars_of u, as_GeminiEntities e) of
             (Some i, Some es) \<Rightarrow>
               Some \<lparr>GeminiResponse.intent = i, entities = es, targetCollection = tc,
                     error = err\<rparr>
           | _ \<Rightarrow> None)
      | _ \<Rightarrow> None)"

section \<open>The models (models/Contact.ts, models/Task.ts)\<close>

text \<open>
  A document carries the paths of its interface; a string path that was never set is
  \<open>None\<close>. \<open>createdAt\<close> is a time stamp.
\<close>

record Contact =
  name :: "string option"
  phoneNumber :: "string option"
  prompt :: "string option"
  relationship :: "string option"
  createdAt :: nat

record Task =
  prompt :: "string option"
  description :: "string option"
  time :: "string option"
  isCompleted :: bool
  createdAt :: nat

text \<open>
  A schema lists its \<open>String\<close> paths with their options, in the order of the source.
  The remaining paths have defaults only: \<open>createdAt\<close> (\<open>Date.now\<close>) in both schemas and
  \<open>isCompleted\<close> (\<open>false\<close>) in the task schema.
\<close>

record StringPath =
  required :: bool
  trim :: bool

type_synonym Schema = "(string \<times> StringPath) list"

definition ContactSchema :: Schema where
  "ContactSchema =
     [(''name'', \<lparr>required = True, trim = True\<rparr>),
      (''phoneNumber'', \<lparr>required = True, trim = True\<rparr>),
      (''prompt'', \<lparr>required = True, trim = True\<rparr>),
      (''relationship'', \<lparr>required = False, trim = True\<rparr>)]"

definition TaskSchema :: Schema where
  "TaskSchema =
     [(''prompt'', \<lparr>required = True, trim = True\<rparr>),
      (''description'', \<lparr>required = True, trim = True\<rparr>),
      (''time'', \<lparr>required = False, trim = True\<rparr>)]"

record Models =
  ContactModel :: Schema
  TaskModel :: Schema

definition models :: Models where
  "models = \<lparr>ContactModel = ContactSchema, TaskModel = TaskSchema\<rparr>"

section \<open>The document store\<close>

text \<open>
  The two collections, in insertion order. The environment of a request gives the clock,
  the deployment mode (\<open>NODE_ENV === 'production'\<close>), whether the store rejects its
  operations (with the message of the error), and the regular expression engine for the
  sources that \<open>new_RegExp_i\<close> below does not interpret itself.
\<close>

record Store =
  contacts :: "Contact list"
  tasks :: "Task list"

record env =
  now :: nat
  production :: bool
  store_fault :: "string option"
  regexp_engine :: "string \<Rightarrow> thrown + (string \<Rightarrow> bool)"

subsection \<open>Mongoose: construction, validation, save\<close>

text \<open>
  Setting a path: a path the schema does not declare is dropped (strict mode), a string
  goes through the \<open>trim\<close> setter when the path asks for it.
\<close>

definition set_path :: "Schema \<Rightarrow> string \<Rightarrow> string option \<Rightarrow> string option" where
  "set_path S k v =
     (case map_of S k of
        None \<Rightarrow> None
      | Some p \<Rightarrow>
          (case v of None \<Rightarrow> None | Some s \<Rightarrow> Some (if trim p then js_trim s else s)))"

text \<open>
  \<open>new ContactModel({name, phoneNumber, relationship})\<close> and
  \<open>new TaskModel({description, time})\<close>. Neither call passes \<open>prompt\<close>.
\<close>

definition new_ContactModel ::
  "Schema \<Rightarrow> env \<Rightarrow> string option \<Rightarrow> string option \<Rightarrow> string option \<Rightarrow> Contact" where
  "new_ContactModel S e n p r =
     \<lparr>Contact.name = set_path S ''name'' n, phoneNumber = set_path S ''phoneNumber'' p,
      prompt = None, relationship = set_path S ''relationship'' r, createdAt = now e\<rparr>"

definition new_TaskModel :: "Schema \<Rightarrow> env \<Rightarrow> string option \<Rightarrow> string option \<Rightarrow> Task" where
  "new_TaskModel S e d t =
     \<lparr>Task.prompt = None, description = set_path S ''description'' d,
      time = set_path S ''time'' t, isCompleted = False, createdAt = now e\<rparr>"

definition Contact_path :: "Contact \<Rightarrow> string \<Rightarrow> string option" where
  "Contact_path c k =
     (if k = ''name'' then Contact.name c
      else if k = ''phoneNumber'' then Contact.phoneNumber c
      else if k = ''prompt'' then Contact.prompt c
      else if k = ''relationship'' then Contact.relationship c
      else None)"

definition Task_path :: "Task \<Rightarrow> string \<Rightarrow> string option" where
  "Task_path t k =
     (if k = ''prompt'' then Task.prompt t
      else if k = ''description'' then Task.description t
      else if k = ''time'' then Task.time t
      else None)"

text \<open>
  The \<open>required\<close> validator of a \<open>String\<close> path fails on a missing value and on the
  empty string. A failed validation rejects \<open>save()\<close> with a \<open>ValidationError\<close>, whose
  message names the failing paths in the order Mongoose validates them: first the required
  paths that were never set (the document keeps them in its \<open>require\<close> state from
  construction on), then the paths that were set, here to a value that trims to the empty
  string.
\<close>

definition invalid_paths :: "Schema \<Rightarrow> (string \<Rightarrow> string option) \<Rightarrow> string list" where
  "invalid_paths S get =
     map fst (filter (\<lambda>(k, p). required p \<and> get k = None) S)
     @ map fst (filter (\<lambda>(k, p). required p \<and> get k = Some []) S)"

definition ValidationError :: "string \<Rightarrow> string list \<Rightarrow> thrown" where
  "ValidationError modelName ks =
     Error (modelName @ '' validation failed: ''
            @ join '', '' (map (\<lambda>k. k @ '': Path `'' @ k @ ''` is required.'') ks))"

definition save_Contact :: "Schema \<Rightarrow> env \<Rightarrow> Contact \<Rightarrow> Store \<Rightarrow> thrown + Store" where
  "save_Contact S e c db =
     (if invalid_paths S (Contact_path c) \<noteq> []
      then Inl (ValidationError ''Contact'' (invalid_paths S (Contact_path c)))
      else (case store_fault e of
              Some m \<Rightarrow> Inl (Error m)
            | None \<Rightarrow> Inr (db\<lparr>contacts := contacts db @ [c]\<rparr>)))"

definition save_Task :: "Schema \<Rightarrow> env \<Rightarrow> Task \<Rightarrow> Store \<Rightarrow> thrown + Store" where
  "save_Task S e t db =
     (if invalid_paths S (Task_path t) \<noteq> []
      then Inl (ValidationError ''Task'' (invalid_paths S (Task_path t)))
      else (case store_fault e of
              Some m \<Rightarrow> Inl (Error m)
            | None \<Rightarrow> Inr (db\<lparr>tasks := tasks db @ [t]\<rparr>)))"

subsection \<open>Regular expressions in queries\<close>

text \<open>
  \<open>new RegExp(source, 'i')\<close>, as a test on a subject string. A source without the
  characters \<open>\ ^ $ . * + ? ( ) [ ] { }\<close> is an alternation of literals: it matches a
  subject that contains one of the alternatives, compared without case. Without the
  \<open>u\<close> flag two code units are equal under \<open>i\<close> when their upper-case mappings are: among
  the characters up to U+00FF that folds \<open>a\<close> to \<open>z\<close> with \<open>A\<close> to \<open>Z\<close> and U+00E0 to U+00FE
  with U+00C0 to U+00DE, the division sign U+00F7 apart; U+00B5, U+00DF and U+00FF have
  no upper-case mapping of one code unit up to U+00FF and are equal to themselves only.
  Any other source is left to \<open>regexp_engine\<close>, which may throw a \<open>SyntaxError\<close>.
\<close>

definition is_regexp_syntax :: "char \<Rightarrow> bool" where
  "is_regexp_syntax c \<longleftrightarrow>
     c = CHR 0x5C \<or> c = CHR ''^'' \<or> c = CHR ''$'' \<or> c = CHR ''.'' \<or> c = CHR ''*'' \<or>
     c = CHR ''+'' \<or> c = CHR ''?'' \<or> c = CHR ''('' \<or> c = CHR '')'' \<or> c = CHR ''['' \<or>
     c = CHR '']'' \<or> c = CHR ''{'' \<or> c = CHR ''}''"

definition to_upper :: "char \<Rightarrow> char" where
  "to_upper c =
     (if (97::nat) \<le> of_char c \<and> of_char c \<le> (122::nat)
         \<or> (224::nat) \<le> of_char c \<and> of_char c \<le> (254::nat) \<and> of_char c \<noteq> (247::nat)
      then char_of (of_char c - (32::nat))
      else c)"

fun contains :: "string \<Rightarrow> string \<Rightarrow> bool" where
  "contains p [] = (p = [])"
| "contains p (c # cs) = (starts_with p (c # cs) \<or> contains p cs)"

definition contains_i :: "string \<Rightarrow> string \<Rightarrow> bool" where
  "contains_i p s = contains (map to_upper p) (map to_upper s)"

definition new_RegExp_i :: "env \<Rightarrow> string \<Rightarrow> thrown + (string \<Rightarrow> bool)" where
  "new_RegExp_i e source =
     (if list_ex is_regexp_syntax source then regexp_engine e source
      else Inr (\<lambda>subject. list_ex (\<lambda>alt. contains_i alt subject) (split (CHR ''|'') source)))"

text \<open>A regular expression in a filter matches a document whose path holds a matching string.\<close>

definition path_matches :: "(string \<Rightarrow> bool) option \<Rightarrow> string option \<Rightarrow> bool" where
  "path_matches re v =
     (case re of
        None \<Rightarrow> True
      | Some test \<Rightarrow> (case v of None \<Rightarrow> False | Some s \<Rightarrow> test s))"

subsection \<open>Queries\<close>

record TaskFilterQuery =
  isCompleted :: bool
  time :: "(string \<Rightarrow> bool) option"
  description :: "(string \<Rightarrow> bool) option"

definition Task_matches :: "TaskFilterQuery \<Rightarrow> Task \<Rightarrow> bool" where
  "Task_matches query t \<longleftrightarrow>
     Task.isCompleted t = TaskFilterQuery.isCompleted query
     \<and> path_matches (TaskFilterQuery.time query) (Task.time t)
     \<and> path_matches (TaskFilterQuery.description query) (Task.description t)"

text \<open>
  \<open>.sort({createdAt: -1})\<close>: newest first; documents of equal time stamp keep their
  insertion order.
\<close>

fun insert_newest :: "Task \<Rightarrow> Task list \<Rightarrow> Task list" where
  "insert_newest t [] = [t]"
| "insert_newest t (u # us) =
     (if Task.createdAt t < Task.createdAt u then u # insert_newest t us else t # u # us)"

definition sort_newest_first :: "Task list \<Rightarrow> Task list" where
  "sort_newest_first ts = foldr insert_newest ts []"

definition find_Tasks :: "env \<Rightarrow> TaskFilterQuery \<Rightarrow> Store \<Rightarrow> thrown + Task list" where
  "find_Tasks e query db =
     (case store_fault e of
        Some m \<Rightarrow> Inl (Error m)
      | None \<Rightarrow> Inr (sort_newest_first (filter (Task_matches query) (tasks db))))"

definition find_Contacts :: "env \<Rightarrow> (string \<Rightarrow> bool) option \<Rightarrow> Store \<Rightarrow> thrown + Contact list" where
  "find_Contacts e query_name db =
     (case store_fault e of
        Some m \<Rightarrow> Inl (Error m)
      | None \<Rightarrow> Inr (filter (\<lambda>c. path_matches query_name (Contact.name c)) (contacts db)))"

section \<open>The route \<open>POST /api/process-speech\<close> (server.ts)\<close>

definition reply :: "nat \<Rightarrow> string \<Rightarrow> Response" where
  "reply code msg =
     \<lparr>status = code, message = msg, details = None, Response.intent = None,
      Response.entities = None\<rparr>"

text \<open>\<open>res.status(200).json({message, intent, entities})\<close> at the end of the switch.\<close>

definition reply_200 :: "GeminiResponse \<Rightarrow> string \<Rightarrow> Response" where
  "reply_200 r responseMessage =
     \<lparr>status = 200, message = responseMessage, details = None,
      Response.intent = Some (GeminiResponse.intent r),
      Response.entities = Some (GeminiResponse.entities r)\<rparr>"

text \<open>
  The central error handling middleware. None of the errors raised in the route carries a
  \<open>status\<close> property, so \<open>err.status || 500\<close> is 500.
\<close>

definition error_middleware :: "env \<Rightarrow> thrown \<Rightarrow> Response" where
  "error_middleware e err =
     reply 500
       (if production e then ''An internal server error occurred.''
        else ''Internal Server Error: ''
             @ (case err of Error m \<Rightarrow> m | NonError \<Rightarrow> ''undefined''))"

definition render_task :: "Task \<Rightarrow> string" where
  "render_task t =
     to_string (Task.description t)
     @ (if truthy (Task.time t) then '' at '' @ to_string (Task.time t) else [])"

definition render_contact :: "Contact \<Rightarrow> string" where
  "render_contact c =
     to_string (Contact.name c) @ '', phone '' @ to_string (Contact.phoneNumber c)
     @ (if truthy (Contact.relationship c)
        then '' ('' @ to_string (Contact.relationship c) @ '')'' else [])"

text \<open>
  The \<open>switch (intent)\<close> inside the inner \<open>try\<close>, up to the response it sends. \<open>Inl\<close> is
  what the inner \<open>catch\<close> receives; the store is then as it was.
\<close>

definition switch_intent ::
  "Models \<Rightarrow> env \<Rightarrow> GeminiResponse \<Rightarrow> Store \<Rightarrow> thrown + Response \<times> Store" where
  "switch_intent M e r db =
     (let intent = GeminiResponse.intent r; entities = GeminiResponse.entities r in
      if intent = ''add_contact'' then
        (if truthy (GeminiEntities.name entities) \<and> truthy (GeminiEntities.phoneNumber entities)
         then
           (case save_Contact (ContactModel M) e
                   (new_ContactModel (ContactModel M) e (GeminiEntities.name entities)
                      (GeminiEntities.phoneNumber entities)
                      (GeminiEntities.relationship entities)) db of
              Inl err \<Rightarrow> Inl err
            | Inr db' \<Rightarrow>
                Inr (reply_200 r (''OK. I've added '' @ to_string (GeminiEntities.name entities)
                                    @ '' to your contacts.''), db'))
         else
           Inr (reply 400 (''I understood you want to add a contact, but I couldn't get ''
                            @ ''the required name or phone number.''), db))
      else if intent = ''add_task'' then
        (if truthy (GeminiEntities.description entities)
         then
           (case save_Task (TaskModel M) e
                   (new_TaskModel (TaskModel M) e (GeminiEntities.description entities)
                      (if truthy (GeminiEntities.time entities)
                       then GeminiEntities.time entities else None)) db of
              Inl err \<Rightarrow> Inl err
            | Inr db' \<Rightarrow>
                Inr (reply_200 r (''OK. I've added the task: ''
                                    @ to_string (GeminiEntities.description entities) @ ''.''),
                     db'))
         else
           Inr (reply 400
                  ''I understood you want to add a task, but I couldn't get the description.'',
                db))
      else if intent = ''get_tasks'' then
        (case (if truthy (GeminiEntities.time entities)
               then map_sum id Some (new_RegExp_i e (to_string (GeminiEntities.time entities)))
               else Inr None) of
           Inl err \<Rightarrow> Inl err
         | Inr query_time \<Rightarrow>
             (case (if truthy (GeminiEntities.description entities)
                    then map_sum id Some
                           (new_RegExp_i e
                              (join ''|''
                                 (split (CHR '' '')
                                    (to_string (GeminiEntities.description entities)))))
                    else Inr None) of
                Inl err \<Rightarrow> Inl err
              | Inr query_description \<Rightarrow>
                  (case find_Tasks e
                          \<lparr>TaskFilterQuery.isCompleted = False, time = query_time,
                           description = query_description\<rparr> db of
                     Inl err \<Rightarrow> Inl err
                   | Inr found \<Rightarrow>
                       Inr (reply_200 r
                              (if 0 < length found
                               then ''Here are your current tasks: ''
                                    @ join ''. '' (map render_task found)
                               else ''You have no pending tasks matching that description.''),
                            db))))
      else if intent = ''get_contacts'' then
        (case (if truthy (GeminiEntities.name entities)
               then map_sum id Some (new_RegExp_i e (to_string (GeminiEntities.name entities)))
               else Inr None) of
           Inl err \<Rightarrow> Inl err
         | Inr query_name \<Rightarrow>
             (case find_Contacts e query_name db of
                Inl err \<Rightarrow> Inl err
              | Inr found \<Rightarrow>
                  Inr (reply_200 r
                         (if 0 < length found
                          then ''Here are the contacts I found: ''
                               @ join ''. '' (map render_contact found)
                          else if truthy (GeminiEntities.name entities)
                          then ''I couldn't find a contact named ''
                               @ to_string (GeminiEntities.name entities) @ ''.''
                          else ''You don't have any contacts saved yet.''),
                       db)))
      else Inr (reply_200 r ''Something went wrong while processing your request.'', db))"

text \<open>The warning of the intent/collection check: the lines \<open>console.warn\<close> writes.\<close>

definition mismatch_warnings :: "GeminiResponse \<Rightarrow> string list" where
  "mismatch_warnings r =
     (let intent = GeminiResponse.intent r; targetCollection = targetCollection r in
      if ((intent = ''add_contact'' \<or> intent = ''get_contacts'')
            \<and> targetCollection \<noteq> Some ''contacts'')
         \<or> ((intent = ''add_task'' \<or> intent = ''get_tasks'')
              \<and> targetCollection \<noteq> Some ''tasks'')
      then [''Intent/Collection mismatch: Intent is '' @ intent @ '', but collection is ''
            @ (case targetCollection of None \<Rightarrow> ''null'' | Some c \<Rightarrow> c)]
      else [])"

text \<open>\<open>typeof\<close> of a property that may be missing.\<close>

definition typeof_property :: "'c json option \<Rightarrow> string" where
  "typeof_property p = (case p of None \<Rightarrow> ''undefined'' | Some v \<Rightarrow> typeof v)"

definition blank_text :: "char json option \<Rightarrow> bool" where
  "blank_text p = (case p of Some (JString s) \<Rightarrow> length (js_trim s) = 0 | _ \<Rightarrow> False)"

text \<open>
  The handler. \<open>text\<close> is \<open>req.body.text\<close>; \<open>r\<close> is the value that the awaited call of
  \<open>processTextWithGemini(text)\<close> yields, at its declared type, which is used only once
  the text has passed the first check. The result is the response sent, the store
  afterwards and the warnings logged. The outer \<open>catch\<close> has no branch here: the adapter
  does not throw, and what the switch throws goes to the inner \<open>catch\<close>, which hands it
  to the error middleware.
\<close>

definition process_speech ::
  "Models \<Rightarrow> env \<Rightarrow> char json option \<Rightarrow> GeminiResponse \<Rightarrow> Store
     \<Rightarrow> Response \<times> Store \<times> string list" where
  "process_speech M e text r db =
     (if \<not> truthy_prop text \<or> typeof_property text \<noteq> ''string'' \<or> blank_text text
      then (reply 400 ''Valid text input is required in the request body'', db, [])
      else
        (let geminiError = error r in
         if truthy geminiError \<or> GeminiResponse.intent r = ''unknown'' then
           (\<lparr>status = (if truthy geminiError then 500 else 400),
             message = (if truthy geminiError
                        then ''Sorry, I had trouble understanding that right now.''
                        else ''I'm sorry, I didn't quite understand your request.''),
             details = Some (if truthy geminiError then to_string geminiError
                             else ''Unknown intent''),
             Response.intent = None, Response.entities = None\<rparr>, db, [])
         else
           (case switch_intent M e r db of
              Inl dbError \<Rightarrow> (error_middleware e dbError, db, mismatch_warnings r)
            | Inr (res, db') \<Rightarrow> (res, db', mismatch_warnings r))))"

section \<open>The claim's readings, for comparison\<close>

text \<open>
  The specification describes the extraction as: first a fenced code block, and only when
  there is none, the first brace-delimited span. \<open>spec_jsonString\<close> follows these words:
  it looks for a fence anywhere in the text before it looks for a brace.
\<close>

fun find_fence :: "string \<Rightarrow> string option" where
  "find_fence [] = None"
| "find_fence (c # cs) =
     (case fence_at (c # cs) of Some g \<Rightarrow> Some g | None \<Rightarrow> find_fence cs)"

fun find_brace :: "string \<Rightarrow> string option" where
  "find_brace [] = None"
| "find_brace (c # cs) =
     (case brace_at (c # cs) of Some g \<Rightarrow> Some g | None \<Rightarrow> find_brace cs)"

definition spec_jsonString :: "string \<Rightarrow> string option" where
  "spec_jsonString text =
     (case find_fence text of Some g \<Rightarrow> Some g | None \<Rightarrow> find_brace text)"

text \<open>
  The specification describes the description filter of \<open>get_tasks\<close> by the
  whitespace-split tokens of the entity. \<open>spec_whitespace_tokens\<close> follows these words: the
  maximal runs of characters that are not white space.
\<close>

fun split_where :: "(char \<Rightarrow> bool) \<Rightarrow> string \<Rightarrow> string list" where
  "split_where P [] = [[]]"
| "split_where P (c # cs) =
     (if P c then [] # split_where P cs
      else (case split_where P cs of p # ps \<Rightarrow> (c # p) # ps | [] \<Rightarrow> [[c]]))"

definition spec_whitespace_tokens :: "string \<Rightarrow> string list" where
  "spec_whitespace_tokens s = filter (\<lambda>t. t \<noteq> []) (split_where is_js_space s)"

definition spec_description_filter :: "string \<Rightarrow> Task \<Rightarrow> bool" where
  "spec_description_filter d t \<longleftrightarrow>
     (case Task.description t of
        None \<Rightarrow> False
      | Some s \<Rightarrow> list_ex (\<lambda>token. contains_i token s) (spec_whitespace_tokens d))"

text \<open>
  The time filter in the specification's words: a case-insensitive substring match of the
  \<open>time\<close> entity.
\<close>

definition spec_time_filter :: "string \<Rightarrow> Task \<Rightarrow> bool" where
  "spec_time_filter tm t \<longleftrightarrow>
     (case Task.time t of None \<Rightarrow> False | Some s \<Rightarrow> contains_i tm s)"

section \<open>Sample requests\<close>

text \<open>A development deployment with a working store; its engine rejects every source.\<close>

definition dev_env :: env where
  "dev_env = \<lparr>now = 100, production = False, store_fault = None,
              regexp_engine = (\<lambda>source. Inl (Error ''Invalid regular expression''))\<rparr>"

definition empty_store :: Store where
  "empty_store = \<lparr>contacts = [], tasks = []\<rparr>"

definition no_entities :: GeminiEntities where
  "no_entities = \<lparr>GeminiEntities.name = None, phoneNumber = None, relationship = None,
                  description = None, time = None\<rparr>"

text \<open>The example of the prompt, and the end-to-end scenario of the specification.\<close>

definition john_doe :: GeminiResponse where
  "john_doe =
     \<lparr>GeminiResponse.intent = ''add_contact'',
      entities = \<lparr>GeminiEntities.name = Some ''John Doe'',
                   phoneNumber = Some ''555-111-2222'', relationship = Some ''son'',
                   description = None, time = None\<rparr>,
      targetCollection = Some ''contacts'', error = None\<rparr>"

definition call_the_doctor :: GeminiResponse where
  "call_the_doctor =
     \<lparr>GeminiResponse.intent = ''add_task'',
      entities = \<lparr>GeminiEntities.name = None, phoneNumber = None, relationship = None,
                   description = Some ''call the doctor'', time = Some ''tomorrow''\<rparr>,
      targetCollection = Some ''tasks'', error = None\<rparr>"

definition classified :: "string \<Rightarrow> GeminiEntities \<Rightarrow> GeminiResponse" where
  "classified i es =
     \<lparr>GeminiResponse.intent = i, entities = es, targetCollection = None, error = None\<rparr>"

text \<open>The schemas of the repository without the path \<open>prompt\<close>.\<close>

definition models_without_prompt :: Models where
  "models_without_prompt =
     \<lparr>ContactModel = filter (\<lambda>(k, p). k \<noteq> ''prompt'') ContactSchema,
      TaskModel = filter (\<lambda>(k, p). k \<noteq> ''prompt'') TaskSchema\<rparr>"

definition buy_milk :: Task where
  "buy_milk = \<lparr>Task.prompt = Some ''remind me to buy milk in the morning'',
               description = Some ''buy milk'', time = Some ''morning'', isCompleted = False,
               createdAt = 10\<rparr>"

definition milk :: Task where
  "milk = \<lparr>Task.prompt = Some ''milk'', description = Some ''milk'', time = None,
           isCompleted = False, createdAt = 20\<rparr>"

definition reply_json :: string where
  \<open>reply_json =
     ''{"intent":"add_task","entities":{"description":"call the doctor"},"targetCollection":"tasks"}''\<close>

definition fenced_reply :: string where
  "fenced_reply = ''```json '' @ reply_json @ '' ```''"

definition prose_then_fence :: string where
  "prose_then_fence = ''Here is the {JSON} you asked for: '' @ fenced_reply"

definition parsed_reply :: "nat json" where
  "parsed_reply =
     JObject [(str ''intent'', JString (str ''add_task'')),
              (str ''entities'',
               JObject [(str ''description'', JString (str ''call the doctor''))]),
              (str ''targetCollection'', JString (str ''tasks''))]"

text \<open>Classification results: a safety block, an unknown intent, an intent outside the five.\<close>

definition blocked :: GeminiResponse where
  "blocked =
     \<lparr>GeminiResponse.intent = ''unknown'', entities = no_entities, targetCollection = None,
      error = Some ''Content blocked due to HATE_SPEECH''\<rparr>"

definition not_understood :: GeminiResponse where
  "not_understood = classified ''unknown'' no_entities"

definition delete_contact :: GeminiResponse where
  "delete_contact = classified ''delete_contact'' no_entities"

definition add_contact_without_phone :: GeminiResponse where
  "add_contact_without_phone =
     classified ''add_contact'' (no_entities\<lparr>GeminiEntities.name := Some ''John Doe''\<rparr>)"

definition add_task_without_description :: GeminiResponse where
  "add_task_without_description =
     classified ''add_task'' (no_entities\<lparr>GeminiEntities.time := Some ''tomorrow''\<rparr>)"


definition tab_request :: GeminiResponse where
  "tab_request =
     \<lparr>GeminiResponse.intent = ''get_tasks'',
      entities = no_entities\<lparr>GeminiEntities.description := Some (''buy'' @ [CHR 0x09] @ ''milk'')\<rparr>,
      targetCollection = Some ''tasks'', error = None\<rparr>"

definition bar_request :: GeminiResponse where
  "bar_request =
     \<lparr>GeminiResponse.intent = ''get_tasks'',
      entities = no_entities\<lparr>GeminiEntities.time := Some ''morning|evening''\<rparr>,
      targetCollection = Some ''tasks'', error = None\<rparr>"

definition paren_request :: GeminiResponse where
  "paren_request =
     \<lparr>GeminiResponse.intent = ''get_tasks'',
      entities = no_entities\<lparr>GeminiEntities.time := Some ''(''\<rparr>,
      targetCollection = Some ''tasks'', error = None\<rparr>"

definition morning_milk_request :: GeminiResponse where
  "morning_milk_request =
     \<lparr>GeminiResponse.intent = ''get_tasks'',
      entities = \<lparr>GeminiEntities.name = None, phoneNumber = None, relationship = None,
                   description = Some ''eggs Milk'', time = Some ''MORN''\<rparr>,
      targetCollection = Some ''tasks'', error = None\<rparr>"

definition done_task :: Task where
  "done_task = \<lparr>Task.prompt = Some ''milk the cow'', description = Some ''milk the cow'',
                time = Some ''morning'', isCompleted = True, createdAt = 30\<rparr>"

definition morning_eggs :: Task where
  "morning_eggs = \<lparr>Task.prompt = Some ''eggs'', description = Some ''boil EGGS'',
                   time = Some ''this Morning'', isCompleted = False, createdAt = 40\<rparr>"

definition sample_store :: Store where
  "sample_store = \<lparr>contacts = [], tasks = [buy_milk, milk, done_task, morning_eggs]\<rparr>"

definition only_intent_reply :: string where
  \<open>only_intent_reply = ''{"intent":"add_task"}''\<close>

definition delete_contact_reply :: string where
  \<open>delete_contact_reply = ''{"intent":"delete_contact","entities":{},"targetCollection":null}''\<close>

section \<open>Properties\<close>

subsection \<open>Code units\<close>

lemma str_eq_iff: "str a = str b \<longleftrightarrow> a = b"
proof -
  have "inj (of_char :: char \<Rightarrow> nat)"
    by (rule injI) (metis char_of_char)
  then show ?thesis
    by (simp add: str_def inj_map_eq_map)
qed

lemma str_Nil_iff: "str a = [] \<longleftrightarrow> a = []"
  by (simp add: str_def)

lemma chars_of_str: "chars_of (str s) = Some s"
proof -
  have "list_all (\<lambda>n. n < 256) (map (of_char :: char \<Rightarrow> nat) s)"
    by (induction s) simp_all
  moreover have "map char_of (map (of_char :: char \<Rightarrow> nat) s) = s"
    by (induction s) simp_all
  ultimately show ?thesis
    by (simp add: chars_of_def str_def)
qed

subsection \<open>Text of the request\<close>

lemma js_trim_blank: "\<forall>c\<in>set s. is_js_space c \<Longrightarrow> js_trim s = []"
  by (auto simp: js_trim_def dest: set_dropWhileD)

lemma js_trim_nonempty: "js_trim s \<noteq> [] \<Longrightarrow> s \<noteq> []"
  by (auto simp: js_trim_def)

lemma text_passes:
  "js_trim s \<noteq> [] \<Longrightarrow>
   \<not> (\<not> truthy_prop (Some (JString s)) \<or> typeof_property (Some (JString s)) \<noteq> ''string''
       \<or> blank_text (Some (JString s)))"
  by (auto simp: truthy_prop_def truthy_json_def typeof_property_def typeof_def blank_text_def
      dest: js_trim_nonempty)

lemma text_fails:
  "input = None \<or> (\<exists>v. input = Some v \<and> (\<forall>s. v \<noteq> JString s))
     \<or> (\<exists>s. input = Some (JString s) \<and> (\<forall>c\<in>set s. is_js_space c)) \<Longrightarrow>
   \<not> truthy_prop input \<or> typeof_property input \<noteq> ''string'' \<or> blank_text input"
  apply (elim disjE exE conjE)
    apply (simp add: truthy_prop_def)
   apply (case_tac v; simp add: typeof_property_def typeof_def)
  apply (simp add: blank_text_def js_trim_blank)
  done

lemma process_speech_classified:
  "js_trim s \<noteq> [] \<Longrightarrow> \<not> truthy (error r) \<Longrightarrow> GeminiResponse.intent r \<noteq> ''unknown'' \<Longrightarrow>
   process_speech M e (Some (JString s)) r db =
     (case switch_intent M e r db of
        Inl dbError \<Rightarrow> (error_middleware e dbError, db, mismatch_warnings r)
      | Inr (res, db') \<Rightarrow> (res, db', mismatch_warnings r))"
  using text_passes[of s] by (simp add: process_speech_def Let_def)

lemma sample_text: "js_trim ''Remind me to call the doctor tomorrow'' \<noteq> []"
  by (simp add: js_trim_def is_js_space_def)

subsection \<open>The classifier adapter\<close>

text \<open>
  Claim C3. The adapter is total over the outcomes of the model call and never throws:
  every outcome gives a returned value. A content-safety block with reason \<open>reason\<close>
  gives \<open>{intent: 'unknown', entities: {}, targetCollection: null, error: "Content blocked
  due to " + reason}\<close>; a rejected call gives the same shape, with the message of the error
  after \<open>Gemini Processing Error: \<close>, or a fixed text when the thrown value is no
  \<open>Error\<close>.
\<close>

theorem adapter_never_throws:
  "(\<exists>v. processTextWithGemini result = Inr v)
   \<and> unknown_with_error msg =
       JObject [(str ''intent'', JString (str ''unknown'')), (str ''entities'', JObject []),
                (str ''targetCollection'', JNull), (str ''error'', JString (str msg))]
   \<and> (blockReason response = Some reason \<and> reason \<noteq> [] \<longrightarrow>
        processTextWithGemini (Resolved response)
          = Inr (unknown_with_error (''Content blocked due to '' @ reason)))
   \<and> processTextWithGemini (Rejected (Error m))
        = Inr (unknown_with_error (''Gemini Processing Error: '' @ m))
   \<and> processTextWithGemini (Rejected NonError)
        = Inr (unknown_with_error ''An unknown error occurred during Gemini processing.'')"
  by (auto simp: processTextWithGemini_def try_block_def errorMessage_def truthy_def
      to_string_def unknown_with_error_def split: sum.splits)

theorem adapter_never_throws_witness:
  "blockReason \<lparr>blockReason = Some ''HATE_SPEECH'', text_outcome = Inr ''ignored''\<rparr>
     = Some ''HATE_SPEECH''
   \<and> ''HATE_SPEECH'' \<noteq> []
   \<and> processTextWithGemini
        (Resolved \<lparr>blockReason = Some ''HATE_SPEECH'', text_outcome = Inr ''ignored''\<rparr>)
       = Inr (JObject [(str ''intent'', JString (str ''unknown'')), (str ''entities'', JObject []),
                       (str ''targetCollection'', JNull),
                       (str ''error'', JString (str ''Content blocked due to HATE_SPEECH''))])"
  using adapter_never_throws
    [of "Resolved \<lparr>blockReason = Some ''HATE_SPEECH'', text_outcome = Inr ''ignored''\<rparr>"
        "''Content blocked due to HATE_SPEECH''"
        "\<lparr>blockReason = Some ''HATE_SPEECH'', text_outcome = Inr ''ignored''\<rparr>"
        "''HATE_SPEECH''"]
  by simp

text \<open>
  Claim C7, as stated: when the extraction fails, the \<open>error\<close> of the returned value is
  \<open>Failed to extract or parse valid JSON from model response.\<close> It is not: the adapter
  throws an \<open>Error\<close> with another text into its own \<open>catch\<close>, which puts
  \<open>Gemini Processing Error: \<close> in front.
\<close>

theorem extraction_failure_message_counterexample:
  "extractJsonFromString ''I cannot help with that.'' = None
   \<and> processTextWithGemini
        (Resolved \<lparr>blockReason = None, text_outcome = Inr ''I cannot help with that.''\<rparr>)
       \<noteq> Inr (unknown_with_error ''Failed to extract or parse valid JSON from model response.'')"
  by (simp add: extractJsonFromString_def fence_at_def brace_at_def processTextWithGemini_def
      try_block_def truthy_def errorMessage_def unknown_with_error_def str_eq_iff)

text \<open>
  Claim C7, amended: when the model call is not blocked and the extraction from its text
  fails, the adapter returns \<open>{intent: 'unknown', entities: {}, targetCollection: null}\<close>
  with \<open>error\<close> equal to \<open>Gemini Processing Error: Failed to extract or parse valid JSON
  from Gemini response.\<close>
\<close>

theorem extraction_failure_message:
  assumes "\<not> truthy (blockReason response)" "text_outcome response = Inr responseText"
    and "extractJsonFromString responseText = None"
  shows "processTextWithGemini (Resolved response)
           = Inr (JObject
               [(str ''intent'', JString (str ''unknown'')), (str ''entities'', JObject []),
                (str ''targetCollection'', JNull),
                (str ''error'', JString (str (''Gemini Processing Error: ''
                   @ ''Failed to extract or parse valid JSON from Gemini response.'')))])"
  using assms
  by (simp add: processTextWithGemini_def try_block_def errorMessage_def unknown_with_error_def)

theorem extraction_failure_message_witness:
  "\<not> truthy (blockReason \<lparr>blockReason = None, text_outcome = Inr ''Sorry, no.''\<rparr>)
   \<and> extractJsonFromString ''Sorry, no.'' = None
   \<and> processTextWithGemini (Resolved \<lparr>blockReason = None, text_outcome = Inr ''Sorry, no.''\<rparr>)
       = Inr (JObject
               [(str ''intent'', JString (str ''unknown'')), (str ''entities'', JObject []),
                (str ''targetCollection'', JNull),
                (str ''error'', JString (str (''Gemini Processing Error: ''
                   @ ''Failed to extract or parse valid JSON from Gemini response.'')))])"
proof -
  have a: "\<not> truthy (blockReason \<lparr>blockReason = None, text_outcome = Inr ''Sorry, no.''\<rparr>)"
    by (simp add: truthy_def)
  have b: "text_outcome \<lparr>blockReason = None, text_outcome = Inr ''Sorry, no.''\<rparr>
             = Inr ''Sorry, no.''"
    by simp
  have c: "extractJsonFromString ''Sorry, no.'' = None"
    by (simp add: extractJsonFromString_def fence_at_def brace_at_def)
  from extraction_failure_message[OF a b c] a c show ?thesis by simp
qed

subsection \<open>The pipeline on a classification result\<close>

text \<open>The failure values of the adapter, viewed at type \<open>GeminiResponse\<close>.\<close>

lemma as_GeminiResponse_unknown_with_error:
  "as_GeminiResponse (unknown_with_error msg) =
     Some \<lparr>GeminiResponse.intent = ''unknown'', entities = no_entities,
           targetCollection = None, error = Some msg\<rparr>"
  by (simp add: as_GeminiResponse_def as_GeminiEntities_def string_member_def property_def
      unknown_with_error_def no_entities_def str_eq_iff chars_of_str)

lemma blocked_from_adapter:
  "map_sum id as_GeminiResponse
     (processTextWithGemini
        (Resolved \<lparr>blockReason = Some ''HATE_SPEECH'', text_outcome = Inr []\<rparr>))
   = Inr (Some blocked)"
  by (simp add: processTextWithGemini_def try_block_def truthy_def to_string_def
      as_GeminiResponse_unknown_with_error blocked_def)

text \<open>
  Claim C5. For a request whose text passed the first check: a classification result with
  \<open>error\<close> set (a non-empty string, which is what the guard tests) is answered 500 with
  the apology and the error as \<open>details\<close>; a result without error and with intent
  \<open>unknown\<close> is answered 400 with the message of the request not being understood; the
  store is unchanged in both cases.
\<close>

theorem error_or_unknown_intent:
  assumes "input = Some (JString s)" "js_trim s \<noteq> []"
  shows "(truthy (error r) \<longrightarrow>
            process_speech M e input r db =
              (\<lparr>status = 500, message = ''Sorry, I had trouble understanding that right now.'',
                details = error r, Response.intent = None, Response.entities = None\<rparr>, db, []))
       \<and> (\<not> truthy (error r) \<and> GeminiResponse.intent r = ''unknown'' \<longrightarrow>
            process_speech M e input r db =
              (\<lparr>status = 400, message = ''I'm sorry, I didn't quite understand your request.'',
                details = Some ''Unknown intent'', Response.intent = None,
                Response.entities = None\<rparr>, db, []))"
  using text_passes[OF assms(2)] assms(1)
  by (auto simp: process_speech_def Let_def truthy_def to_string_def split: option.splits)

theorem error_or_unknown_intent_witness:
  "js_trim ''Remind me to call the doctor tomorrow'' \<noteq> []
   \<and> truthy (error blocked)
   \<and> process_speech models dev_env (Some (JString ''Remind me to call the doctor tomorrow''))
        blocked empty_store =
       (\<lparr>status = 500, message = ''Sorry, I had trouble understanding that right now.'',
         details = Some ''Content blocked due to HATE_SPEECH'', Response.intent = None,
         Response.entities = None\<rparr>, empty_store, [])
   \<and> \<not> truthy (error not_understood) \<and> GeminiResponse.intent not_understood = ''unknown''
   \<and> process_speech models dev_env (Some (JString ''Remind me to call the doctor tomorrow''))
        not_understood empty_store =
       (\<lparr>status = 400, message = ''I'm sorry, I didn't quite understand your request.'',
         details = Some ''Unknown intent'', Response.intent = None,
         Response.entities = None\<rparr>, empty_store, [])"
  using sample_text
    error_or_unknown_intent[OF refl sample_text, where r = blocked and M = models
      and e = dev_env and db = empty_store]
    error_or_unknown_intent[OF refl sample_text, where r = not_understood and M = models
      and e = dev_env and db = empty_store]
  by (simp add: blocked_def not_understood_def classified_def truthy_def)

text \<open>
  Claim C10. A classification result without error whose intent is none of the five known
  intents is answered 200 with the message \<open>Something went wrong while processing your
  request.\<close>, and the store is unchanged. Such a result can come out of the extraction:
  its validation accepts every non-empty intent string.
\<close>

theorem unlisted_intent_200:
  assumes "input = Some (JString s)" "js_trim s \<noteq> []" "\<not> truthy (error r)"
    and "GeminiResponse.intent r \<notin>
           {''add_contact'', ''add_task'', ''get_contacts'', ''get_tasks'', ''unknown''}"
  shows "process_speech M e input r db =
           (\<lparr>status = 200, message = ''Something went wrong while processing your request.'',
             details = None, Response.intent = Some (GeminiResponse.intent r),
             Response.entities = Some (GeminiResponse.entities r)\<rparr>, db, [])
         \<and> (i \<noteq> [] \<longrightarrow>
              valid_structure (JObject [(str ''intent'', JString i), (str ''entities'', JObject es),
                                        (str ''targetCollection'', tc)]))"
  using assms
  by (simp add: process_speech_classified switch_intent_def Let_def reply_200_def
      mismatch_warnings_def valid_structure_def property_def truthy_prop_def truthy_json_def
      typeof_def)

theorem unlisted_intent_200_witness:
  "js_trim ''Remind me to call the doctor tomorrow'' \<noteq> []
   \<and> \<not> truthy (error delete_contact)
   \<and> GeminiResponse.intent delete_contact \<notin>
        {''add_contact'', ''add_task'', ''get_contacts'', ''get_tasks'', ''unknown''}
   \<and> process_speech models dev_env (Some (JString ''Remind me to call the doctor tomorrow''))
        delete_contact empty_store =
       (\<lparr>status = 200, message = ''Something went wrong while processing your request.'',
         details = None, Response.intent = Some ''delete_contact'',
         Response.entities = Some no_entities\<rparr>, empty_store, [])
   \<and> valid_structure (JObject [(str ''intent'', JString (str ''delete_contact'')),
                               (str ''entities'', JObject []), (str ''targetCollection'', JNull)])
   \<and> extractJsonFromString delete_contact_reply
       = Some (JObject [(str ''intent'', JString (str ''delete_contact'')),
                        (str ''entities'', JObject []), (str ''targetCollection'', JNull)])
   \<and> as_GeminiResponse (JObject [(str ''intent'', JString (str ''delete_contact'')),
                                 (str ''entities'', JObject []), (str ''targetCollection'', JNull)])
       = Some delete_contact"
proof -
  have a: "\<not> truthy (error delete_contact)"
    by (simp add: delete_contact_def classified_def truthy_def)
  have b: "GeminiResponse.intent delete_contact \<notin>
             {''add_contact'', ''add_task'', ''get_contacts'', ''get_tasks'', ''unknown''}"
    by (simp add: delete_contact_def classified_def)
  have x: "extractJsonFromString delete_contact_reply
       = Some (JObject [(str ''intent'', JString (str ''delete_contact'')),
                        (str ''entities'', JObject []), (str ''targetCollection'', JNull)])"
    by code_simp
  have y: "as_GeminiResponse (JObject [(str ''intent'', JString (str ''delete_contact'')),
                                 (str ''entities'', JObject []), (str ''targetCollection'', JNull)])
       = Some delete_contact"
    by code_simp
  from unlisted_intent_200[OF refl sample_text a b, where M = models and e = dev_env
      and db = empty_store and i = "str ''delete_contact''" and es = "[]" and tc = JNull]
    sample_text a b x y
  show ?thesis by (simp add: delete_contact_def classified_def str_Nil_iff)
qed

lemma reply_200_targetCollection:
  "reply_200 (r\<lparr>targetCollection := t\<rparr>) m = reply_200 r m"
  by (simp add: reply_200_def)

lemma switch_intent_targetCollection:
  "switch_intent M e (r\<lparr>targetCollection := t\<rparr>) db = switch_intent M e r db"
  by (simp add: switch_intent_def Let_def reply_200_targetCollection cong: sum.case_cong)

text \<open>
  Claim C9. The field \<open>targetCollection\<close> of the classification result has no influence
  on the response or on the store: two results that differ only there get the same
  response and leave the same store. (Only the warning that is logged depends on it.)
\<close>

theorem targetCollection_not_used:
  "fst (process_speech M e input (r\<lparr>targetCollection := t1\<rparr>) db)
     = fst (process_speech M e input (r\<lparr>targetCollection := t2\<rparr>) db)
   \<and> fst (snd (process_speech M e input (r\<lparr>targetCollection := t1\<rparr>) db))
     = fst (snd (process_speech M e input (r\<lparr>targetCollection := t2\<rparr>) db))"
  by (simp add: process_speech_def Let_def switch_intent_targetCollection
      split: sum.splits prod.splits)

theorem targetCollection_not_used_witness:
  "fst (process_speech models_without_prompt dev_env
          (Some (JString ''Remind me to call the doctor tomorrow''))
          (call_the_doctor\<lparr>targetCollection := Some ''contacts''\<rparr>) empty_store)
     = fst (process_speech models_without_prompt dev_env
              (Some (JString ''Remind me to call the doctor tomorrow''))
              (call_the_doctor\<lparr>targetCollection := Some ''tasks''\<rparr>) empty_store)
   \<and> fst (snd (process_speech models_without_prompt dev_env
                 (Some (JString ''Remind me to call the doctor tomorrow''))
                 (call_the_doctor\<lparr>targetCollection := Some ''contacts''\<rparr>) empty_store))
     = fst (snd (process_speech models_without_prompt dev_env
                   (Some (JString ''Remind me to call the doctor tomorrow''))
                   (call_the_doctor\<lparr>targetCollection := Some ''tasks''\<rparr>) empty_store))"
  by (rule targetCollection_not_used)

text \<open>
  Claim C2. A request whose \<open>text\<close> is missing, is not a string, or is empty or only
  white space is answered 400; so is a request classified \<open>add_contact\<close> whose \<open>name\<close>
  or \<open>phoneNumber\<close> is missing (or empty), and a request classified \<open>add_task\<close> whose
  \<open>description\<close> is missing (or empty). In every one of these cases the store is
  unchanged.
\<close>

theorem invalid_input_400_no_write:
  "(input = None \<or> (\<exists>v. input = Some v \<and> (\<forall>s. v \<noteq> JString s))
      \<or> (\<exists>s. input = Some (JString s) \<and> (\<forall>c\<in>set s. is_js_space c)) \<longrightarrow>
      status (fst (process_speech M e input r db)) = 400
      \<and> fst (snd (process_speech M e input r db)) = db)
   \<and> (input = Some (JString s) \<and> js_trim s \<noteq> [] \<and> \<not> truthy (error r)
        \<and> GeminiResponse.intent r = ''add_contact''
        \<and> (\<not> truthy (GeminiEntities.name (GeminiResponse.entities r))
             \<or> \<not> truthy (GeminiEntities.phoneNumber (GeminiResponse.entities r))) \<longrightarrow>
      status (fst (process_speech M e input r db)) = 400
      \<and> fst (snd (process_speech M e input r db)) = db)
   \<and> (input = Some (JString s) \<and> js_trim s \<noteq> [] \<and> \<not> truthy (error r)
        \<and> GeminiResponse.intent r = ''add_task''
        \<and> \<not> truthy (GeminiEntities.description (GeminiResponse.entities r)) \<longrightarrow>
      status (fst (process_speech M e input r db)) = 400
      \<and> fst (snd (process_speech M e input r db)) = db)"
proof (intro conjI impI)
  assume "input = None \<or> (\<exists>v. input = Some v \<and> (\<forall>s. v \<noteq> JString s))
      \<or> (\<exists>s. input = Some (JString s) \<and> (\<forall>c\<in>set s. is_js_space c))"
  from text_fails[OF this]
  have *: "process_speech M e input r db =
          (reply 400 ''Valid text input is required in the request body'', db, [])"
    by (simp add: process_speech_def)
  show "status (fst (process_speech M e input r db)) = 400"
    and "fst (snd (process_speech M e input r db)) = db"
    by (simp_all add: * reply_def)
next
  assume a: "input = Some (JString s) \<and> js_trim s \<noteq> [] \<and> \<not> truthy (error r)
        \<and> GeminiResponse.intent r = ''add_contact''
        \<and> (\<not> truthy (GeminiEntities.name (GeminiResponse.entities r))
             \<or> \<not> truthy (GeminiEntities.phoneNumber (GeminiResponse.entities r)))"
  then have "switch_intent M e r db =
      Inr (reply 400 (''I understood you want to add a contact, but I couldn't get ''
                            @ ''the required name or phone number.''), db)"
    by (auto simp: switch_intent_def Let_def)
  with a show "status (fst (process_speech M e input r db)) = 400"
    and "fst (snd (process_speech M e input r db)) = db"
    by (simp_all add: process_speech_classified reply_def)
next
  assume a: "input = Some (JString s) \<and> js_trim s \<noteq> [] \<and> \<not> truthy (error r)
        \<and> GeminiResponse.intent r = ''add_task''
        \<and> \<not> truthy (GeminiEntities.description (GeminiResponse.entities r))"
  then have "switch_intent M e r db =
      Inr (reply 400
                  ''I understood you want to add a task, but I couldn't get the description.'',
                db)"
    by (auto simp: switch_intent_def Let_def)
  with a show "status (fst (process_speech M e input r db)) = 400"
    and "fst (snd (process_speech M e input r db)) = db"
    by (simp_all add: process_speech_classified reply_def)
qed

theorem invalid_input_400_no_write_witness:
  "status (fst (process_speech models dev_env None john_doe empty_store)) = 400
   \<and> fst (snd (process_speech models dev_env None john_doe empty_store)) = empty_store
   \<and> (\<forall>s. (JNumber 5 :: char json) \<noteq> JString s)
   \<and> status (fst (process_speech models dev_env (Some (JNumber 5)) john_doe empty_store)) = 400
   \<and> fst (snd (process_speech models dev_env (Some (JNumber 5)) john_doe empty_store))
       = empty_store
   \<and> list_all is_js_space [CHR 0x20, CHR 0x09, CHR 0x0A]
   \<and> status (fst (process_speech models dev_env (Some (JString [CHR 0x20, CHR 0x09, CHR 0x0A]))
                    john_doe empty_store)) = 400
   \<and> fst (snd (process_speech models dev_env (Some (JString [CHR 0x20, CHR 0x09, CHR 0x0A]))
                  john_doe empty_store)) = empty_store
   \<and> js_trim ''Remind me to call the doctor tomorrow'' \<noteq> []
   \<and> \<not> truthy (error add_contact_without_phone)
   \<and> GeminiResponse.intent add_contact_without_phone = ''add_contact''
   \<and> \<not> truthy (GeminiEntities.phoneNumber (GeminiResponse.entities add_contact_without_phone))
   \<and> status (fst (process_speech models dev_env
                    (Some (JString ''Remind me to call the doctor tomorrow''))
                    add_contact_without_phone empty_store)) = 400
   \<and> fst (snd (process_speech models dev_env
                  (Some (JString ''Remind me to call the doctor tomorrow''))
                  add_contact_without_phone empty_store)) = empty_store
   \<and> \<not> truthy (error add_task_without_description)
   \<and> GeminiResponse.intent add_task_without_description = ''add_task''
   \<and> \<not> truthy (GeminiEntities.description
                  (GeminiResponse.entities add_task_without_description))
   \<and> status (fst (process_speech models dev_env
                    (Some (JString ''Remind me to call the doctor tomorrow''))
                    add_task_without_description empty_store)) = 400
   \<and> fst (snd (process_speech models dev_env
                  (Some (JString ''Remind me to call the doctor tomorrow''))
                  add_task_without_description empty_store)) = empty_store"
proof -
  have ws: "list_all is_js_space [CHR 0x20, CHR 0x09, CHR 0x0A]"
    by (simp add: is_js_space_def)
  have c: "\<not> truthy (error add_contact_without_phone)
           \<and> GeminiResponse.intent add_contact_without_phone = ''add_contact''
           \<and> \<not> truthy (GeminiEntities.phoneNumber
                          (GeminiResponse.entities add_contact_without_phone))"
    by (simp add: add_contact_without_phone_def classified_def no_entities_def truthy_def)
  have t: "\<not> truthy (error add_task_without_description)
           \<and> GeminiResponse.intent add_task_without_description = ''add_task''
           \<and> \<not> truthy (GeminiEntities.description
                          (GeminiResponse.entities add_task_without_description))"
    by (simp add: add_task_without_description_def classified_def no_entities_def truthy_def)
  from invalid_input_400_no_write[where input = None and M = models and e = dev_env
      and r = john_doe and db = empty_store]
  have 1: "status (fst (process_speech models dev_env None john_doe empty_store)) = 400
           \<and> fst (snd (process_speech models dev_env None john_doe empty_store)) = empty_store"
    by simp
  from invalid_input_400_no_write[where input = "Some (JNumber 5)" and M = models
      and e = dev_env and r = john_doe and db = empty_store]
  have 2: "status (fst (process_speech models dev_env (Some (JNumber 5)) john_doe
                          empty_store)) = 400
           \<and> fst (snd (process_speech models dev_env (Some (JNumber 5)) john_doe empty_store))
               = empty_store"
    by simp
  from ws invalid_input_400_no_write[where input = "Some (JString [CHR 0x20, CHR 0x09, CHR 0x0A])"
      and M = models and e = dev_env and r = john_doe and db = empty_store]
  have 3: "status (fst (process_speech models dev_env
                          (Some (JString [CHR 0x20, CHR 0x09, CHR 0x0A]))
                          john_doe empty_store)) = 400
           \<and> fst (snd (process_speech models dev_env
                         (Some (JString [CHR 0x20, CHR 0x09, CHR 0x0A]))
                         john_doe empty_store)) = empty_store"
    by (simp add: is_js_space_def)
  from c sample_text
    invalid_input_400_no_write[where input = "Some (JString ''Remind me to call the doctor tomorrow'')"
      and s = "''Remind me to call the doctor tomorrow''"
      and M = models and e = dev_env and r = add_contact_without_phone and db = empty_store]
  have 4: "status (fst (process_speech models dev_env
                    (Some (JString ''Remind me to call the doctor tomorrow''))
                    add_contact_without_phone empty_store)) = 400
   \<and> fst (snd (process_speech models dev_env
                  (Some (JString ''Remind me to call the doctor tomorrow''))
                  add_contact_without_phone empty_store)) = empty_store"
    by simp
  from t sample_text
    invalid_input_400_no_write[where input = "Some (JString ''Remind me to call the doctor tomorrow'')"
      and s = "''Remind me to call the doctor tomorrow''"
      and M = models and e = dev_env and r = add_task_without_description and db = empty_store]
  have 5: "status (fst (process_speech models dev_env
                    (Some (JString ''Remind me to call the doctor tomorrow''))
                    add_task_without_description empty_store)) = 400
   \<and> fst (snd (process_speech models dev_env
                  (Some (JString ''Remind me to call the doctor tomorrow''))
                  add_task_without_description empty_store)) = empty_store"
    by simp
  from 1 2 3 4 5 ws c t sample_text show ?thesis by simp
qed

subsection \<open>Persisting a contact or a task\<close>

lemma ContactSchema_requires_prompt:
  "save_Contact ContactSchema e (new_ContactModel ContactSchema e n p rel) db
     = Inl (ValidationError ''Contact''
             (invalid_paths ContactSchema (Contact_path (new_ContactModel ContactSchema e n p rel))))"
  by (simp add: save_Contact_def invalid_paths_def ContactSchema_def Contact_path_def
      new_ContactModel_def truthy_def)

lemma TaskSchema_requires_prompt:
  "save_Task TaskSchema e (new_TaskModel TaskSchema e d t) db
     = Inl (ValidationError ''Task''
             (invalid_paths TaskSchema (Task_path (new_TaskModel TaskSchema e d t))))"
  by (simp add: save_Task_def invalid_paths_def TaskSchema_def Task_path_def
      new_TaskModel_def truthy_def)

text \<open>
  Claim C1 says that a request classified \<open>add_contact\<close> with \<open>name\<close> and
  \<open>phoneNumber\<close>, or \<open>add_task\<close> with \<open>description\<close>, persists one document and is
  answered 200. With the schemas of the repository it is not so: both schemas require the
  path \<open>prompt\<close>, the handler never sets it, \<open>save()\<close> is rejected by the validation,
  and the request is answered 500 by the error middleware with the store unchanged.
\<close>

theorem add_requests_never_persist:
  assumes "input = Some (JString s)" "js_trim s \<noteq> []" "\<not> truthy (error r)"
  shows "(GeminiResponse.intent r = ''add_contact''
            \<and> truthy (GeminiEntities.name (GeminiResponse.entities r))
            \<and> truthy (GeminiEntities.phoneNumber (GeminiResponse.entities r)) \<longrightarrow>
          status (fst (process_speech models e input r db)) = 500
          \<and> fst (snd (process_speech models e input r db)) = db)
       \<and> (GeminiResponse.intent r = ''add_task''
            \<and> truthy (GeminiEntities.description (GeminiResponse.entities r)) \<longrightarrow>
          status (fst (process_speech models e input r db)) = 500
          \<and> fst (snd (process_speech models e input r db)) = db)"
  using assms
  by (auto simp: process_speech_classified switch_intent_def Let_def models_def
      ContactSchema_requires_prompt TaskSchema_requires_prompt ValidationError_def
      error_middleware_def reply_def)

theorem add_requests_never_persist_witness:
  "js_trim ''Remind me to call the doctor tomorrow'' \<noteq> []
   \<and> \<not> truthy (error john_doe) \<and> GeminiResponse.intent john_doe = ''add_contact''
   \<and> truthy (GeminiEntities.name (GeminiResponse.entities john_doe))
   \<and> truthy (GeminiEntities.phoneNumber (GeminiResponse.entities john_doe))
   \<and> status (fst (process_speech models dev_env
                    (Some (JString ''Remind me to call the doctor tomorrow''))
                    john_doe empty_store)) = 500
   \<and> fst (snd (process_speech models dev_env
                  (Some (JString ''Remind me to call the doctor tomorrow''))
                  john_doe empty_store)) = empty_store
   \<and> \<not> truthy (error call_the_doctor) \<and> GeminiResponse.intent call_the_doctor = ''add_task''
   \<and> truthy (GeminiEntities.description (GeminiResponse.entities call_the_doctor))
   \<and> process_speech models dev_env (Some (JString ''Remind me to call the doctor tomorrow''))
        call_the_doctor empty_store
      = (\<lparr>status = 500,
          message = ''Internal Server Error: Task validation failed: ''
                    @ ''prompt: Path `prompt` is required.'',
          details = None, Response.intent = None, Response.entities = None\<rparr>,
         empty_store, [])"
proof -
  have c: "\<not> truthy (error john_doe) \<and> GeminiResponse.intent john_doe = ''add_contact''
           \<and> truthy (GeminiEntities.name (GeminiResponse.entities john_doe))
           \<and> truthy (GeminiEntities.phoneNumber (GeminiResponse.entities john_doe))"
    by (simp add: john_doe_def truthy_def)
  have t: "\<not> truthy (error call_the_doctor) \<and> GeminiResponse.intent call_the_doctor = ''add_task''
           \<and> truthy (GeminiEntities.description (GeminiResponse.entities call_the_doctor))"
    by (simp add: call_the_doctor_def truthy_def)
  have m: "process_speech models dev_env (Some (JString ''Remind me to call the doctor tomorrow''))
        call_the_doctor empty_store
      = (\<lparr>status = 500,
          message = ''Internal Server Error: Task validation failed: ''
                    @ ''prompt: Path `prompt` is required.'',
          details = None, Response.intent = None, Response.entities = None\<rparr>,
         empty_store, [])"
    by code_simp
  from c sample_text
    add_requests_never_persist[OF refl sample_text, where r = john_doe and e = dev_env
      and db = empty_store]
  have 1: "status (fst (process_speech models dev_env
                    (Some (JString ''Remind me to call the doctor tomorrow''))
                    john_doe empty_store)) = 500
   \<and> fst (snd (process_speech models dev_env
                  (Some (JString ''Remind me to call the doctor tomorrow''))
                  john_doe empty_store)) = empty_store"
    by simp
  from 1 c t m sample_text show ?thesis by simp
qed

subsection \<open>Writes of a request\<close>






subsection \<open>JSON extraction\<close>

lemma starts_with_iff: "starts_with p s \<longleftrightarrow> (\<exists>b. s = p @ b)"
  by (induction p s rule: starts_with.induct) auto

lemma before_fence_iff:
  "before_fence s = Some g \<longleftrightarrow>
     (\<exists>rest. s = g @ ''```'' @ rest \<and> (\<forall>i<length g. \<not> starts_with ''```'' (drop i s)))"
proof (induction s arbitrary: g)
  case Nil
  show ?case by simp
next
  case (Cons c cs)
  show ?case
  proof (cases "starts_with ''```'' (c # cs)")
    case True
    then obtain b where b: "c # cs = ''```'' @ b"
      unfolding starts_with_iff by blast
    show ?thesis
    proof (cases g)
      case Nil
      have "before_fence (c # cs) = Some []"
        using True by (simp del: starts_with.simps)
      with b Nil show ?thesis by simp
    next
      case (Cons d ds)
      have "0 < length g \<and> starts_with ''```'' (drop 0 (c # cs))"
        using True Cons by (simp del: starts_with.simps)
      then have r: "\<not> (\<forall>i<length g. \<not> starts_with ''```'' (drop i (c # cs)))"
        by blast
      have "before_fence (c # cs) = Some []"
        using True by (simp del: starts_with.simps)
      then have "before_fence (c # cs) \<noteq> Some g"
        using Cons by simp
      with r show ?thesis by blast
    qed
  next
    case False
    have bf: "before_fence (c # cs) = map_option ((#) c) (before_fence cs)"
      using False by (simp del: starts_with.simps)
    show ?thesis
    proof (cases g)
      case Nil
      have "\<not> (\<exists>rest. c # cs = ''```'' @ rest)"
        using False unfolding starts_with_iff by blast
      then show ?thesis
        using bf Nil by auto
    next
      case (Cons d ds)
      have a: "(\<forall>i<length (d # ds). \<not> starts_with ''```'' (drop i (c # cs)))
              \<longleftrightarrow> (\<forall>j<length ds. \<not> starts_with ''```'' (drop j cs))"
        (is "?P \<longleftrightarrow> ?Q")
      proof
        assume p: ?P
        show ?Q
        proof (intro allI impI)
          fix j assume "j < length ds"
          then have "Suc j < length (d # ds)" by simp
          with p have "\<not> starts_with ''```'' (drop (Suc j) (c # cs))" by blast
          then show "\<not> starts_with ''```'' (drop j cs)" by (simp del: starts_with.simps)
        qed
      next
        assume q: ?Q
        show ?P
        proof (intro allI impI)
          fix i assume i: "i < length (d # ds)"
          show "\<not> starts_with ''```'' (drop i (c # cs))"
          proof (cases i)
            case 0
            with False show ?thesis by (simp del: starts_with.simps)
          next
            case (Suc j)
            with i q show ?thesis by (simp del: starts_with.simps)
          qed
        qed
      qed
      have "before_fence (c # cs) = Some g \<longleftrightarrow> c = d \<and> before_fence cs = Some ds"
        using bf Cons by auto
      also have "\<dots> \<longleftrightarrow> c = d \<and> (\<exists>rest. cs = ds @ ''```'' @ rest
                      \<and> (\<forall>j<length ds. \<not> starts_with ''```'' (drop j cs)))"
        using Cons.IH[of ds] by simp
      also have "\<dots> \<longleftrightarrow> (\<exists>rest. c # cs = g @ ''```'' @ rest
                      \<and> (\<forall>i<length g. \<not> starts_with ''```'' (drop i (c # cs))))"
        unfolding Cons a[symmetric] by auto
      finally show ?thesis .
    qed
  qed
qed

lemma not_space_backtick: "\<not> is_js_space (CHR 0x60)"
  by (simp add: is_js_space_def)

lemma dropWhile_all: "\<forall>c\<in>set ws. P c \<Longrightarrow> dropWhile P (ws @ ys) = dropWhile P ys"
  by (induction ws) auto

lemma rstrip_decomp:
  "\<exists>ws. xs = rev (dropWhile P (rev xs)) @ ws \<and> (\<forall>c\<in>set ws. P c)"
proof -
  have "rev xs = takeWhile P (rev xs) @ dropWhile P (rev xs)" by simp
  then have "xs = rev (dropWhile P (rev xs)) @ rev (takeWhile P (rev xs))"
    by (metis rev_append rev_rev_ident)
  moreover have "\<forall>c\<in>set (rev (takeWhile P (rev xs))). P c"
    by (auto dest: set_takeWhileD)
  ultimately show ?thesis by blast
qed

lemma rstrip_last:
  "rev (dropWhile P (rev xs)) \<noteq> [] \<Longrightarrow> \<not> P (last (rev (dropWhile P (rev xs))))"
  by (simp add: last_rev hd_dropWhile)

lemma rstrip_append:
  assumes "\<forall>c\<in>set ws. P c" and "g \<noteq> [] \<longrightarrow> \<not> P (last g)"
  shows "rev (dropWhile P (rev (g @ ws))) = g"
proof -
  have "dropWhile P (rev ws @ rev g) = dropWhile P (rev g)"
    using assms(1) by (intro dropWhile_all) simp
  also have "\<dots> = rev g"
    using assms(2) by (cases "g = []") (simp_all add: dropWhile_eq_self_iff hd_rev)
  finally show ?thesis by simp
qed

lemma fence_at_iff:
  "fence_at s = Some g \<longleftrightarrow>
     (\<exists>ws ws' rest. s = ''```json'' @ ws @ g @ ws' @ ''```'' @ rest
        \<and> (\<forall>c\<in>set ws. is_js_space c) \<and> (\<forall>c\<in>set ws'. is_js_space c)
        \<and> (g \<noteq> [] \<longrightarrow> \<not> is_js_space (hd g) \<and> \<not> is_js_space (last g))
        \<and> (\<forall>i<length (g @ ws'). \<not> starts_with ''```'' (drop i (g @ ws' @ ''```'' @ rest))))"
  (is "?L \<longleftrightarrow> ?R")
proof
  assume L: ?L
  then have sw: "starts_with ''```json'' s"
    by (auto simp: fence_at_def split: if_splits)
  then obtain r where r: "s = ''```json'' @ r"
    unfolding starts_with_iff by blast
  define ws where "ws = takeWhile is_js_space r"
  define r' where "r' = dropWhile is_js_space r"
  have rr: "r = ws @ r'" by (simp add: ws_def r'_def)
  have wsp: "\<forall>c\<in>set ws. is_js_space c"
    by (auto simp: ws_def dest: set_takeWhileD)
  from L sw r obtain inner where inner: "before_fence r' = Some inner"
    and g: "g = rev (dropWhile is_js_space (rev inner))"
    by (auto simp: fence_at_def r'_def split: option.splits)
  from inner obtain rest where rest: "r' = inner @ ''```'' @ rest"
    and first: "\<forall>i<length inner. \<not> starts_with ''```'' (drop i r')"
    unfolding before_fence_iff by blast
  obtain ws' where ws': "inner = g @ ws'" and ws'p: "\<forall>c\<in>set ws'. is_js_space c"
    using rstrip_decomp[of inner is_js_space] g by blast
  have ends: "g \<noteq> [] \<longrightarrow> \<not> is_js_space (hd g) \<and> \<not> is_js_space (last g)"
  proof
    assume ne: "g \<noteq> []"
    then have "r' \<noteq> []" using rest ws' by simp
    then have "\<not> is_js_space (hd r')"
      unfolding r'_def by (rule hd_dropWhile)
    moreover have "hd r' = hd g" using rest ws' ne by simp
    moreover have "\<not> is_js_space (last g)"
      using ne rstrip_last[of is_js_space inner] g by simp
    ultimately show "\<not> is_js_space (hd g) \<and> \<not> is_js_space (last g)" by simp
  qed
  have "s = ''```json'' @ ws @ g @ ws' @ ''```'' @ rest"
    using r rr rest ws' by simp
  moreover have "\<forall>i<length (g @ ws'). \<not> starts_with ''```'' (drop i (g @ ws' @ ''```'' @ rest))"
    using first rest ws' by simp
  ultimately show ?R
    using wsp ws'p ends by blast
next
  assume ?R
  then obtain ws ws' rest where s: "s = ''```json'' @ ws @ g @ ws' @ ''```'' @ rest"
    and wsp: "\<forall>c\<in>set ws. is_js_space c" and ws'p: "\<forall>c\<in>set ws'. is_js_space c"
    and ends: "g \<noteq> [] \<longrightarrow> \<not> is_js_space (hd g) \<and> \<not> is_js_space (last g)"
    and first: "\<forall>i<length (g @ ws'). \<not> starts_with ''```'' (drop i (g @ ws' @ ''```'' @ rest))"
    by blast
  have sw: "starts_with ''```json'' s" and d7: "drop 7 s = ws @ g @ ws' @ ''```'' @ rest"
    using s by (simp_all add: starts_with_iff)
  have d1: "dropWhile is_js_space (ws @ g @ ws' @ ''```'' @ rest)
          = dropWhile is_js_space (g @ ws' @ ''```'' @ rest)"
    using wsp by (rule dropWhile_all)
  show ?L
  proof (cases "g = []")
    case True
    have "dropWhile is_js_space (ws' @ ''```'' @ rest) = dropWhile is_js_space (''```'' @ rest)"
      using ws'p by (rule dropWhile_all)
    also have "\<dots> = ''```'' @ rest"
      using not_space_backtick by simp
    finally show ?thesis
      using True sw d7 d1 by (simp add: fence_at_def)
  next
    case False
    with ends have h: "\<not> is_js_space (hd g)" and l: "\<not> is_js_space (last g)"
      by simp_all
    have d2: "dropWhile is_js_space (g @ ws' @ ''```'' @ rest) = g @ ws' @ ''```'' @ rest"
      using False h by (cases g) simp_all
    have b: "before_fence (g @ ws' @ ''```'' @ rest) = Some (g @ ws')"
      unfolding before_fence_iff using first by auto
    have r: "rev (dropWhile is_js_space (rev (g @ ws'))) = g"
      using ws'p l by (intro rstrip_append) simp_all
    show ?thesis
      using sw d7 d1 d2 b r by (simp add: fence_at_def)
  qed
qed

lemma brace_at_iff:
  "brace_at s = Some g \<longleftrightarrow>
     (\<exists>mid post. s = ''{'' @ mid @ ''}'' @ post \<and> CHR ''}'' \<notin> set post
        \<and> g = ''{'' @ mid @ ''}'')"
  (is "?L \<longleftrightarrow> ?R")
proof
  assume L: ?L
  then obtain cs where s: "s = CHR ''{'' # cs" and m: "CHR ''}'' \<in> set cs"
    and g: "g = CHR ''{'' # upto_last_brace cs"
    by (auto simp: brace_at_def split: list.splits if_splits)
  obtain post where p: "cs = upto_last_brace cs @ post" and pp: "\<forall>c\<in>set post. c \<noteq> CHR ''}''"
    using rstrip_decomp[of cs "\<lambda>c. c \<noteq> CHR ''}''"] unfolding upto_last_brace_def by blast
  have ne: "upto_last_brace cs \<noteq> []"
    using m p pp by (metis append_Nil)
  have "last (upto_last_brace cs) = CHR ''}''"
    using ne rstrip_last[of "\<lambda>c. c \<noteq> CHR ''}''" cs] unfolding upto_last_brace_def by simp
  then obtain mid where mid: "upto_last_brace cs = mid @ ''}''"
    using ne by (metis append_butlast_last_id)
  have "s = ''{'' @ mid @ ''}'' @ post"
    using s p mid by (metis append_Cons append_Nil append_assoc)
  moreover have "CHR ''}'' \<notin> set post" using pp by blast
  moreover have "g = ''{'' @ mid @ ''}''" using g mid by simp
  ultimately show ?R by blast
next
  assume ?R
  then obtain mid post where s: "s = ''{'' @ mid @ ''}'' @ post" and p: "CHR ''}'' \<notin> set post"
    and g: "g = ''{'' @ mid @ ''}''" by blast
  have "rev (dropWhile (\<lambda>c. c \<noteq> CHR ''}'') (rev ((mid @ ''}'') @ post))) = mid @ ''}''"
    using p by (intro rstrip_append) auto
  then have "upto_last_brace (mid @ ''}'' @ post) = mid @ ''}''"
    by (simp add: upto_last_brace_def)
  then show ?L
    using s g by (simp add: brace_at_def)
qed

lemma match_json_leftmost:
  "match_json t = Some m \<longleftrightarrow>
     (\<exists>n<length t.
        (\<forall>i<n. fence_at (drop i t) = None \<and> brace_at (drop i t) = None)
        \<and> ((\<exists>g. fence_at (drop n t) = Some g \<and> m = \<lparr>group1 = Some g, group2 = None\<rparr>)
           \<or> fence_at (drop n t) = None
             \<and> (\<exists>g. brace_at (drop n t) = Some g \<and> m = \<lparr>group1 = None, group2 = Some g\<rparr>)))"
  (is "_ \<longleftrightarrow> (\<exists>n<length t. ?first n t \<and> ?here n t)")
proof (induction t)
  case Nil
  show ?case by simp
next
  case (Cons c cs)
  let ?t = "c # cs"
  show ?case
  proof (cases "fence_at ?t = None \<and> brace_at ?t = None")
    case True
    have "(\<exists>n<length ?t. ?first n ?t \<and> ?here n ?t)
            \<longleftrightarrow> (\<exists>k<length cs. ?first k cs \<and> ?here k cs)" (is "?A \<longleftrightarrow> ?B")
    proof
      assume ?A
      then obtain n where n: "n < length ?t" "?first n ?t" "?here n ?t" by blast
      have "n \<noteq> 0" using n(3) True by (cases n) auto
      then obtain k where k: "n = Suc k" by (cases n) auto
      have "?first k cs"
      proof (intro allI impI)
        fix i assume "i < k"
        then have "Suc i < n" using k by simp
        with n(2) have "fence_at (drop (Suc i) ?t) = None \<and> brace_at (drop (Suc i) ?t) = None"
          by blast
        then show "fence_at (drop i cs) = None \<and> brace_at (drop i cs) = None" by simp
      qed
      moreover have "?here k cs" using n(3) k by simp
      moreover have "k < length cs" using n(1) k by simp
      ultimately show ?B by blast
    next
      assume ?B
      then obtain k where k: "k < length cs" "?first k cs" "?here k cs" by blast
      have "?first (Suc k) ?t"
      proof (intro allI impI)
        fix i assume i: "i < Suc k"
        show "fence_at (drop i ?t) = None \<and> brace_at (drop i ?t) = None"
        proof (cases i)
          case 0
          with True show ?thesis by simp
        next
          case (Suc j)
          with i k(2) show ?thesis by simp
        qed
      qed
      moreover have "?here (Suc k) ?t" using k(3) by simp
      moreover have "Suc k < length ?t" using k(1) by simp
      ultimately show ?A by blast
    qed
    moreover have "match_json ?t = match_json cs"
      using True by simp
    ultimately show ?thesis
      using Cons.IH by simp
  next
    case False
    have zero: "(\<exists>n<length ?t. ?first n ?t \<and> ?here n ?t) \<longleftrightarrow> ?here 0 ?t" (is "?A \<longleftrightarrow> ?B")
    proof
      assume ?A
      then obtain n where n: "n < length ?t" "?first n ?t" "?here n ?t" by blast
      have "n = 0"
      proof (rule ccontr)
        assume "n \<noteq> 0"
        then have "0 < n" by simp
        with n(2) have "fence_at (drop 0 ?t) = None \<and> brace_at (drop 0 ?t) = None" by blast
        with False show False by simp
      qed
      with n(3) show ?B by simp
    next
      assume ?B
      then have "0 < length ?t \<and> ?first 0 ?t \<and> ?here 0 ?t" by simp
      then show ?A by blast
    qed
    have "match_json ?t = Some m \<longleftrightarrow> ?here 0 ?t"
      using False by (auto split: option.splits)
    with zero show ?thesis by simp
  qed
qed


lemma valid_structure_iff:
  "valid_structure v \<longleftrightarrow>
     (\<exists>kvs i en tc. v = JObject kvs
        \<and> map_of kvs (str ''intent'') = Some i \<and> i \<noteq> JNull \<and> truthy_json i
        \<and> map_of kvs (str ''entities'') = Some en \<and> en \<noteq> JNull \<and> truthy_json en
        \<and> map_of kvs (str ''targetCollection'') = Some tc)"
  by (cases v)
     (auto simp: valid_structure_def property_def truthy_prop_def truthy_json_def typeof_def
       str_eq_iff split: option.splits)

lemma extractJsonFromString_Some_iff:
  "extractJsonFromString t = Some v \<longleftrightarrow>
     (\<exists>m. match_json t = Some m \<and> JSON_parse (to_string (jsonString_of m)) = Some v
        \<and> valid_structure v)"
  by (auto simp: extractJsonFromString_def split: option.splits if_splits)

lemma extractJsonFromString_None_iff:
  "extractJsonFromString t = None \<longleftrightarrow>
     match_json t = None
     \<or> (\<exists>m. match_json t = Some m
           \<and> (JSON_parse (to_string (jsonString_of m)) = None
              \<or> (\<exists>p. JSON_parse (to_string (jsonString_of m)) = Some p
                    \<and> \<not> valid_structure p)))"
  by (auto simp: extractJsonFromString_def split: option.splits if_splits)

lemma jsonString_of_fence:
  "to_string (jsonString_of \<lparr>group1 = Some g, group2 = None\<rparr>)
     = (if g = [] then ''undefined'' else g)"
  by (simp add: jsonString_of_def to_string_def truthy_def)

lemma jsonString_of_brace:
  "to_string (jsonString_of \<lparr>group1 = None, group2 = Some g\<rparr>) = g"
  by (simp add: jsonString_of_def to_string_def truthy_def)

text \<open>
  Claim C4, as stated: the extraction tries the fenced code block first and falls back to
  a brace-delimited span. It does not: the regular expression is matched at the leftmost
  position where either alternative matches. In the text below a brace opens before the
  fence; read as the claim does (\<open>spec_jsonString\<close>), the fenced block is found, parses
  and has the required keys, but the code takes the span from the first \<open>{\<close> to the last
  \<open>}\<close>, which does not parse, and returns \<open>null\<close>.
\<close>

theorem fence_priority_counterexample:
  "spec_jsonString prose_then_fence = Some reply_json
   \<and> JSON_parse reply_json = Some parsed_reply
   \<and> valid_structure parsed_reply
   \<and> extractJsonFromString prose_then_fence = None"
  by code_simp

text \<open>
  Claim C4, amended. For every text the extraction takes the leftmost match of the
  expression: the first position at which one of the two alternatives matches, the fence
  alternative tried before the brace alternative. The fence alternative matches at a
  position exactly when the text there is \<open>```json\<close>, white space, a content, white space
  and \<open>```\<close>, where the content neither begins nor ends with white space and the closing
  fence is the first \<open>```\<close> from the content on; the span is the content, and an empty
  content makes \<open>JSON.parse\<close> read \<open>undefined\<close>, which fails. The brace alternative
  matches exactly when the text there begins with \<open>{\<close> and has a later \<open>}\<close>; the span
  runs to the last \<open>}\<close> of the text. The parsed value is returned exactly when there is a
  match whose span parses as JSON to an object with a truthy (so non-null) \<open>intent\<close>, a
  truthy (so non-null) \<open>entities\<close> and a \<open>targetCollection\<close> that is present, possibly
  \<open>null\<close>; in every other case (no match, a span that does not parse, a value that fails
  this test) the result is \<open>null\<close>.
\<close>

theorem extraction_leftmost_match:
  "(extractJsonFromString t = Some v \<longleftrightarrow>
      (\<exists>m. match_json t = Some m \<and> JSON_parse (to_string (jsonString_of m)) = Some v
         \<and> valid_structure v))
   \<and> (extractJsonFromString t = None \<longleftrightarrow>
        match_json t = None
        \<or> (\<exists>m. match_json t = Some m
              \<and> (JSON_parse (to_string (jsonString_of m)) = None
                 \<or> (\<exists>p. JSON_parse (to_string (jsonString_of m)) = Some p
                       \<and> \<not> valid_structure p))))
   \<and> (valid_structure v \<longleftrightarrow>
        (\<exists>kvs i en tc. v = JObject kvs
           \<and> map_of kvs (str ''intent'') = Some i \<and> i \<noteq> JNull \<and> truthy_json i
           \<and> map_of kvs (str ''entities'') = Some en \<and> en \<noteq> JNull \<and> truthy_json en
           \<and> map_of kvs (str ''targetCollection'') = Some tc))
   \<and> (match_json t = Some m \<longleftrightarrow>
        (\<exists>n<length t.
           (\<forall>i<n. fence_at (drop i t) = None \<and> brace_at (drop i t) = None)
           \<and> ((\<exists>g. fence_at (drop n t) = Some g \<and> m = \<lparr>group1 = Some g, group2 = None\<rparr>)
              \<or> fence_at (drop n t) = None
                \<and> (\<exists>g. brace_at (drop n t) = Some g
                      \<and> m = \<lparr>group1 = None, group2 = Some g\<rparr>))))
   \<and> to_string (jsonString_of \<lparr>group1 = Some g, group2 = None\<rparr>)
        = (if g = [] then ''undefined'' else g)
   \<and> to_string (jsonString_of \<lparr>group1 = None, group2 = Some g\<rparr>) = g
   \<and> (fence_at s = Some g \<longleftrightarrow>
        (\<exists>ws ws' rest. s = ''```json'' @ ws @ g @ ws' @ ''```'' @ rest
           \<and> (\<forall>c\<in>set ws. is_js_space c) \<and> (\<forall>c\<in>set ws'. is_js_space c)
           \<and> (g \<noteq> [] \<longrightarrow> \<not> is_js_space (hd g) \<and> \<not> is_js_space (last g))
           \<and> (\<forall>i<length (g @ ws').
                 \<not> starts_with ''```'' (drop i (g @ ws' @ ''```'' @ rest)))))
   \<and> (brace_at s = Some g \<longleftrightarrow>
        (\<exists>mid post. s = ''{'' @ mid @ ''}'' @ post \<and> CHR ''}'' \<notin> set post
           \<and> g = ''{'' @ mid @ ''}''))"
  (is "?C1 \<and> ?C2 \<and> ?C3 \<and> ?C4 \<and> ?C5 \<and> ?C6 \<and> ?C7 \<and> ?C8")
proof (intro conjI)
  show ?C1 by (rule extractJsonFromString_Some_iff)
  show ?C2 by (rule extractJsonFromString_None_iff)
  show ?C3 by (rule valid_structure_iff)
  show ?C4 by (rule match_json_leftmost)
  show ?C5 by (rule jsonString_of_fence)
  show ?C6 by (rule jsonString_of_brace)
  show ?C7 by (rule fence_at_iff)
  show ?C8 by (rule brace_at_iff)
qed

theorem extraction_leftmost_match_witness:
  "extractJsonFromString fenced_reply = Some parsed_reply
   \<and> (\<exists>kvs i en tc. parsed_reply = JObject kvs
          \<and> map_of kvs (str ''intent'') = Some i \<and> i \<noteq> JNull \<and> truthy_json i
          \<and> map_of kvs (str ''entities'') = Some en \<and> en \<noteq> JNull \<and> truthy_json en
          \<and> map_of kvs (str ''targetCollection'') = Some tc)
   \<and> extractJsonFromString ''I cannot help with that.'' = None
   \<and> JSON_parse ''{oops}'' = None
   \<and> extractJsonFromString ''{oops}'' = None
   \<and> JSON_parse only_intent_reply = Some (JObject [(str ''intent'', JString (str ''add_task''))])
   \<and> extractJsonFromString only_intent_reply = None
   \<and> fence_at fenced_reply = Some reply_json
   \<and> match_json (''Here you go: '' @ fenced_reply)
       = Some \<lparr>group1 = Some reply_json, group2 = None\<rparr>
   \<and> brace_at (drop 12 prose_then_fence)
       = Some (''{JSON} you asked for: ```json '' @ reply_json)
   \<and> match_json prose_then_fence
       = Some \<lparr>group1 = None, group2 = Some (''{JSON} you asked for: ```json '' @ reply_json)\<rparr>"
proof -
  note T = extraction_leftmost_match
  have m1: "match_json fenced_reply = Some \<lparr>group1 = Some reply_json, group2 = None\<rparr>"
    by code_simp
  have p1: "JSON_parse (to_string (jsonString_of \<lparr>group1 = Some reply_json, group2 = None\<rparr>))
              = Some parsed_reply"
    by code_simp
  have v1: "valid_structure parsed_reply"
    by code_simp
  have 1: "extractJsonFromString fenced_reply = Some parsed_reply"
    using T[where t = fenced_reply and v = parsed_reply, THEN conjunct1, THEN iffD2]
      m1 p1 v1 by blast
  have 2: "\<exists>kvs i en tc. parsed_reply = JObject kvs
          \<and> map_of kvs (str ''intent'') = Some i \<and> i \<noteq> JNull \<and> truthy_json i
          \<and> map_of kvs (str ''entities'') = Some en \<and> en \<noteq> JNull \<and> truthy_json en
          \<and> map_of kvs (str ''targetCollection'') = Some tc"
    by (rule T[where v = parsed_reply, THEN conjunct2, THEN conjunct2, THEN conjunct1,
          THEN iffD1, OF v1])
  have m3: "match_json ''I cannot help with that.'' = None"
    by code_simp
  have 3: "extractJsonFromString ''I cannot help with that.'' = None"
    by (rule T[THEN conjunct2, THEN conjunct1, THEN iffD2, OF disjI1, OF m3])
  have m4: "match_json ''{oops}'' = Some \<lparr>group1 = None, group2 = Some ''{oops}''\<rparr>"
    by code_simp
  have p4: "JSON_parse ''{oops}'' = None"
    by code_simp
  have q4: "JSON_parse (to_string (jsonString_of \<lparr>group1 = None, group2 = Some ''{oops}''\<rparr>))
              = None"
    unfolding T[THEN conjunct2, THEN conjunct2, THEN conjunct2, THEN conjunct2, THEN conjunct2,
        THEN conjunct1] by (rule p4)
  have 4: "extractJsonFromString ''{oops}'' = None"
    using T[where t = "''{oops}''", THEN conjunct2, THEN conjunct1, THEN iffD2] m4 q4 by blast
  have m5: "match_json only_intent_reply
              = Some \<lparr>group1 = None, group2 = Some only_intent_reply\<rparr>"
    by code_simp
  have p5: "JSON_parse only_intent_reply
              = Some (JObject [(str ''intent'', JString (str ''add_task''))])"
    by code_simp
  have q5: "JSON_parse (to_string (jsonString_of
                  \<lparr>group1 = None, group2 = Some only_intent_reply\<rparr>))
                = Some (JObject [(str ''intent'', JString (str ''add_task''))])"
    unfolding T[THEN conjunct2, THEN conjunct2, THEN conjunct2, THEN conjunct2, THEN conjunct2,
        THEN conjunct1] by (rule p5)
  have v5: "\<not> valid_structure (JObject [(str ''intent'', JString (str ''add_task''))])"
    unfolding T[THEN conjunct2, THEN conjunct2, THEN conjunct1]
    by (simp add: str_eq_iff)
  have 5: "extractJsonFromString only_intent_reply = None"
    using T[where t = only_intent_reply, THEN conjunct2, THEN conjunct1, THEN iffD2] m5 q5 v5
    by blast
  have f6: "fence_at fenced_reply = Some reply_json"
    by code_simp
  have "list_all (\<lambda>i. fence_at (drop i (''Here you go: '' @ fenced_reply)) = None
                        \<and> brace_at (drop i (''Here you go: '' @ fenced_reply)) = None) [0..<13]"
    by code_simp
  then have a7: "\<forall>i<13. fence_at (drop i (''Here you go: '' @ fenced_reply)) = None
                      \<and> brace_at (drop i (''Here you go: '' @ fenced_reply)) = None"
    by (simp add: list_all_iff)
  have b7: "fence_at (drop 13 (''Here you go: '' @ fenced_reply)) = Some reply_json"
    using f6 by simp
  have l7: "13 < length (''Here you go: '' @ fenced_reply)"
    by code_simp
  have 7: "match_json (''Here you go: '' @ fenced_reply)
             = Some \<lparr>group1 = Some reply_json, group2 = None\<rparr>"
    using T[where t = "''Here you go: '' @ fenced_reply"
               and m = "\<lparr>group1 = Some reply_json, group2 = None\<rparr>",
            THEN conjunct2, THEN conjunct2, THEN conjunct2, THEN conjunct1, THEN iffD2]
      a7 b7 l7 by blast
  have "list_all (\<lambda>i. fence_at (drop i prose_then_fence) = None
                        \<and> brace_at (drop i prose_then_fence) = None) [0..<12]"
    by code_simp
  then have a8: "\<forall>i<12. fence_at (drop i prose_then_fence) = None
                      \<and> brace_at (drop i prose_then_fence) = None"
    by (simp add: list_all_iff)
  have b8: "fence_at (drop 12 prose_then_fence) = None"
    by code_simp
  have c8: "brace_at (drop 12 prose_then_fence)
              = Some (''{JSON} you asked for: ```json '' @ reply_json)"
    by code_simp
  have l8: "12 < length prose_then_fence"
    by code_simp
  have 8: "match_json prose_then_fence
       = Some \<lparr>group1 = None, group2 = Some (''{JSON} you asked for: ```json '' @ reply_json)\<rparr>"
    using T[where t = prose_then_fence
               and m = "\<lparr>group1 = None,
                          group2 = Some (''{JSON} you asked for: ```json '' @ reply_json)\<rparr>",
            THEN conjunct2, THEN conjunct2, THEN conjunct2, THEN conjunct1, THEN iffD2]
      a8 b8 c8 l8 by blast
  show ?thesis
    by (intro conjI 1 2 3 p4 4 p5 5 f6 7 c8 8)
qed

subsection \<open>Listing the tasks\<close>

text \<open>\<open>contains\<close> is the substring test, \<open>contains_i\<close> the same on upper-cased letters.\<close>

lemma contains_iff: "contains p s \<longleftrightarrow> (\<exists>a b. s = a @ p @ b)"
proof (induction s)
  case Nil
  then show ?case by auto
next
  case (Cons c cs)
  show ?case
  proof
    assume "contains p (c # cs)"
    then consider "starts_with p (c # cs)" | "contains p cs" by auto
    then show "\<exists>a b. c # cs = a @ p @ b"
    proof cases
      case 1
      then obtain b where "c # cs = p @ b" by (auto simp: starts_with_iff)
      then have "c # cs = [] @ p @ b" by simp
      then show ?thesis by blast
    next
      case 2
      with Cons obtain a b where "cs = a @ p @ b" by auto
      then have "c # cs = (c # a) @ p @ b" by simp
      then show ?thesis by blast
    qed
  next
    assume "\<exists>a b. c # cs = a @ p @ b"
    then obtain a b where ab: "c # cs = a @ p @ b" by auto
    show "contains p (c # cs)"
    proof (cases a)
      case Nil
      with ab have "starts_with p (c # cs)" by (auto simp: starts_with_iff)
      then show ?thesis by simp
    next
      case (Cons x xs)
      with ab have "cs = xs @ p @ b" by simp
      with Cons.IH have "contains p cs" by auto
      then show ?thesis by simp
    qed
  qed
qed

lemma contains_i_iff:
  "contains_i p s \<longleftrightarrow> (\<exists>a b. map to_upper s = a @ map to_upper p @ b)"
  by (simp add: contains_i_def contains_iff)

lemma split_not_Nil: "split sep s \<noteq> []"
  by (induction s) (auto split: list.splits)

lemma join_Cons_head: "join sep ((c # p) # ps) = c # join sep (p # ps)"
  by (cases ps) auto

lemma join_split_space:
  "join ''|'' (split (CHR '' '') d) = map (\<lambda>c. if c = CHR '' '' then CHR ''|'' else c) d"
proof (induction d)
  case Nil
  then show ?case by simp
next
  case (Cons c cs)
  obtain p ps where s: "split (CHR '' '') cs = p # ps"
    using split_not_Nil by (cases "split (CHR '' '') cs") auto
  show ?case
  proof (cases "c = CHR '' ''")
    case True
    then show ?thesis using Cons s by simp
  next
    case False
    then show ?thesis using Cons s by (simp add: join_Cons_head)
  qed
qed

lemma split_bar_map:
  "CHR ''|'' \<notin> set d \<Longrightarrow>
   split (CHR ''|'') (map (\<lambda>c. if c = CHR '' '' then CHR ''|'' else c) d) = split (CHR '' '') d"
  by (induction d) auto

lemma split_absent: "sep \<notin> set s \<Longrightarrow> split sep s = [s]"
  by (induction s) auto

lemma syntax_map:
  "list_ex is_regexp_syntax (map (\<lambda>c. if c = CHR '' '' then CHR ''|'' else c) d)
     \<longleftrightarrow> list_ex is_regexp_syntax d"
  by (induction d) (auto simp: is_regexp_syntax_def)

lemma RegExp_literal:
  assumes "\<forall>c\<in>set p. \<not> is_regexp_syntax c \<and> c \<noteq> CHR ''|''"
  shows "new_RegExp_i e p = Inr (\<lambda>subject. contains_i p subject)"
proof -
  from assms have "\<not> list_ex is_regexp_syntax p" "CHR ''|'' \<notin> set p"
    by (auto simp: list_ex_iff)
  then show ?thesis by (simp add: new_RegExp_i_def split_absent)
qed

lemma RegExp_keywords:
  assumes "\<forall>c\<in>set d. \<not> is_regexp_syntax c \<and> c \<noteq> CHR ''|''"
  shows "new_RegExp_i e (join ''|'' (split (CHR '' '') d))
           = Inr (\<lambda>subject. \<exists>token\<in>set (split (CHR '' '') d). contains_i token subject)"
proof -
  from assms have n: "\<not> list_ex is_regexp_syntax d" and b: "CHR ''|'' \<notin> set d"
    by (auto simp: list_ex_iff)
  from n have "\<not> list_ex is_regexp_syntax (join ''|'' (split (CHR '' '') d))"
    by (simp add: join_split_space syntax_map)
  then have "new_RegExp_i e (join ''|'' (split (CHR '' '') d))
               = Inr (\<lambda>subject. list_ex (\<lambda>alt. contains_i alt subject)
                       (split (CHR ''|'') (join ''|'' (split (CHR '' '') d))))"
    by (simp add: new_RegExp_i_def)
  also have "split (CHR ''|'') (join ''|'' (split (CHR '' '') d)) = split (CHR '' '') d"
    using b by (simp add: join_split_space split_bar_map)
  finally show ?thesis by (simp add: list_ex_iff)
qed

lemma set_insert_newest: "set (insert_newest t ts) = insert t (set ts)"
  by (induction ts) auto

lemma sorted_insert_newest:
  "sorted_wrt (\<lambda>a b. Task.createdAt b \<le> Task.createdAt a) ts \<Longrightarrow>
   sorted_wrt (\<lambda>a b. Task.createdAt b \<le> Task.createdAt a) (insert_newest t ts)"
  by (induction ts) (auto simp: set_insert_newest)

lemma set_sort_newest_first: "set (sort_newest_first ts) = set ts"
  by (induction ts) (auto simp: sort_newest_first_def set_insert_newest)

lemma sorted_sort_newest_first:
  "sorted_wrt (\<lambda>a b. Task.createdAt b \<le> Task.createdAt a) (sort_newest_first ts)"
  by (induction ts) (auto simp: sort_newest_first_def sorted_insert_newest)

text \<open>
  Claim C6, as stated: the description filter of \<open>get_tasks\<close> matches a task whose
  description contains one of the whitespace-split tokens of the entity, the time filter
  a task whose time contains the entity. The code splits at single spaces only: for the
  entity \<open>buy<TAB>milk\<close> the tokens of the claim are \<open>buy\<close> and \<open>milk\<close>, so the pending
  task \<open>milk\<close> should be listed, but the code looks for the one piece \<open>buy<TAB>milk\<close>
  and reports that there is no pending task. And the entities are sources of regular
  expressions: the time entity \<open>morning|evening\<close> is not contained in the time
  \<open>morning\<close> of the pending task \<open>buy milk\<close>, but the code lists that task; and
  for the time entity \<open>(\<close>, which is no regular expression, \<open>new RegExp\<close> throws and the
  request is answered 500 instead of 200.
\<close>

theorem whitespace_tokens_counterexample:
  "GeminiResponse.intent tab_request = ''get_tasks''
   \<and> GeminiEntities.description (GeminiResponse.entities tab_request)
       = Some (''buy'' @ [CHR 0x09] @ ''milk'')
   \<and> spec_whitespace_tokens (''buy'' @ [CHR 0x09] @ ''milk'') = [''buy'', ''milk'']
   \<and> \<not> Task.isCompleted milk
   \<and> spec_description_filter (''buy'' @ [CHR 0x09] @ ''milk'') milk
   \<and> fst (process_speech models dev_env
             (Some (JString ''Remind me to call the doctor tomorrow'')) tab_request
             \<lparr>contacts = [], tasks = [milk]\<rparr>)
       = \<lparr>status = 200, message = ''You have no pending tasks matching that description.'',
          details = None, Response.intent = Some ''get_tasks'',
          Response.entities = Some (GeminiResponse.entities tab_request)\<rparr>
   \<and> GeminiResponse.intent bar_request = ''get_tasks''
   \<and> GeminiEntities.time (GeminiResponse.entities bar_request) = Some ''morning|evening''
   \<and> Task.time buy_milk = Some ''morning''
   \<and> \<not> spec_time_filter ''morning|evening'' buy_milk
   \<and> fst (process_speech models dev_env
             (Some (JString ''Remind me to call the doctor tomorrow'')) bar_request
             \<lparr>contacts = [], tasks = [buy_milk]\<rparr>)
       = \<lparr>status = 200, message = ''Here are your current tasks: buy milk at morning'',
          details = None, Response.intent = Some ''get_tasks'',
          Response.entities = Some (GeminiResponse.entities bar_request)\<rparr>
   \<and> GeminiResponse.intent paren_request = ''get_tasks''
   \<and> GeminiEntities.time (GeminiResponse.entities paren_request) = Some ''(''
   \<and> status (fst (process_speech models dev_env
                    (Some (JString ''Remind me to call the doctor tomorrow'')) paren_request
                    \<lparr>contacts = [], tasks = [buy_milk]\<rparr>)) = 500"
  by code_simp

text \<open>
  The comparison without case folds the accented letters up to U+00FF as well: the
  description entity \<open>caf\<close> followed by U+00E9 finds the pending task \<open>CAF\<close> followed
  by U+00C9. The signs U+00F7 and U+00D7 are not letters and stay different.
\<close>

lemma accented_letters_fold:
  "contains_i [CHR ''c'', CHR ''a'', CHR ''f'', CHR 0xE9] [CHR ''C'', CHR ''A'', CHR ''F'', CHR 0xC9]
   \<and> \<not> contains_i [CHR 0xF7] [CHR 0xD7]
   \<and> \<not> contains_i [CHR 0xFF] [CHR 0xDF]
   \<and> message (fst (process_speech models dev_env
                     (Some (JString ''Remind me to call the doctor tomorrow''))
                     (classified ''get_tasks''
                        (no_entities\<lparr>GeminiEntities.description :=
                           Some [CHR ''c'', CHR ''a'', CHR ''f'', CHR 0xE9]\<rparr>))
                     \<lparr>contacts = [],
                      tasks = [\<lparr>Task.prompt = None,
                                description = Some [CHR ''C'', CHR ''A'', CHR ''F'', CHR 0xC9],
                                time = None, isCompleted = False, createdAt = 1\<rparr>]\<rparr>))
       = ''Here are your current tasks: '' @ [CHR ''C'', CHR ''A'', CHR ''F'', CHR 0xC9]"
  by code_simp

text \<open>
  Claim C6, amended. For a \<open>get_tasks\<close> request on a working store whose \<open>time\<close> and
  \<open>description\<close> entities contain none of the characters \<open>\ ^ $ . * + ? ( ) [ ] { } |\<close>
  (with them, the entities act as regular expressions): the tasks found are the tasks
  with \<open>isCompleted = false\<close> whose \<open>time\<close> contains the \<open>time\<close> entity (when that is
  non-empty) and whose \<open>description\<close> contains one of the pieces of the \<open>description\<close>
  entity split at single spaces (when that is non-empty), letters compared without case;
  they are sorted newest first by \<open>createdAt\<close>; the response is 200, its message is
  \<open>Here are your current tasks: \<close> followed by the descriptions, each with
  \<open> at <time>\<close> appended when its time is non-empty, joined by \<open>. \<close>, or the message of
  no pending task when none is found; the store is unchanged.
\<close>

theorem get_tasks_listing:
  assumes "input = Some (JString s)" "js_trim s \<noteq> []" "\<not> truthy (error r)"
    and "GeminiResponse.intent r = ''get_tasks''"
    and "store_fault e = None"
    and "GeminiEntities.time (GeminiResponse.entities r) = tm"
    and "GeminiEntities.description (GeminiResponse.entities r) = ds"
    and "\<forall>c\<in>set (to_string tm). \<not> is_regexp_syntax c \<and> c \<noteq> CHR ''|''"
    and "\<forall>c\<in>set (to_string ds). \<not> is_regexp_syntax c \<and> c \<noteq> CHR ''|''"
  shows "let wanted = (\<lambda>t. \<not> Task.isCompleted t
                 \<and> (truthy tm \<longrightarrow>
                      (\<exists>x. Task.time t = Some x \<and> contains_i (to_string tm) x))
                 \<and> (truthy ds \<longrightarrow>
                      (\<exists>x. Task.description t = Some x
                         \<and> (\<exists>token\<in>set (split (CHR '' '') (to_string ds)).
                               contains_i token x))));
             found = sort_newest_first (filter wanted (tasks db))
         in fst (process_speech M e input r db) =
              \<lparr>status = 200,
               message =
                 (if found = [] then ''You have no pending tasks matching that description.''
                  else ''Here are your current tasks: ''
                       @ join ''. ''
                           (map (\<lambda>t. to_string (Task.description t)
                                       @ (if truthy (Task.time t)
                                          then '' at '' @ to_string (Task.time t) else []))
                                found)),
               details = None, Response.intent = Some ''get_tasks'',
               Response.entities = Some (GeminiResponse.entities r)\<rparr>
            \<and> fst (snd (process_speech M e input r db)) = db
            \<and> sorted_wrt (\<lambda>a b. Task.createdAt b \<le> Task.createdAt a) found
            \<and> set found = {t \<in> set (tasks db). wanted t}"
proof -
  define tq where "tq = (if truthy tm then Some (\<lambda>x. contains_i (to_string tm) x) else None)"
  define dq where
    "dq = (if truthy ds
           then Some (\<lambda>x. \<exists>token\<in>set (split (CHR '' '') (to_string ds)). contains_i token x)
           else None)"
  define wanted where
    "wanted = (\<lambda>t::Task. \<not> Task.isCompleted t
                 \<and> (truthy tm \<longrightarrow>
                      (\<exists>x. Task.time t = Some x \<and> contains_i (to_string tm) x))
                 \<and> (truthy ds \<longrightarrow>
                      (\<exists>x. Task.description t = Some x
                         \<and> (\<exists>token\<in>set (split (CHR '' '') (to_string ds)).
                               contains_i token x))))"
  define found where "found = sort_newest_first (filter wanted (tasks db))"
  have T: "(if truthy (GeminiEntities.time (GeminiResponse.entities r))
            then map_sum id Some
                   (new_RegExp_i e (to_string (GeminiEntities.time (GeminiResponse.entities r))))
            else Inr None) = Inr tq"
    unfolding assms(6) using assms(8) by (simp add: tq_def RegExp_literal)
  have D: "(if truthy (GeminiEntities.description (GeminiResponse.entities r))
            then map_sum id Some
                   (new_RegExp_i e
                      (join ''|''
                         (split (CHR '' '')
                            (to_string (GeminiEntities.description (GeminiResponse.entities r))))))
            else Inr None) = Inr dq"
    unfolding assms(7) using assms(9) by (simp add: dq_def RegExp_keywords)
  have W: "Task_matches \<lparr>TaskFilterQuery.isCompleted = False, time = tq, description = dq\<rparr>
             = wanted"
    by (rule ext)
       (auto simp: Task_matches_def path_matches_def wanted_def tq_def dq_def
          split: option.splits)
  have F: "find_Tasks e \<lparr>TaskFilterQuery.isCompleted = False, time = tq, description = dq\<rparr> db
             = Inr found"
    using assms(5) by (simp add: find_Tasks_def W found_def)
  have S: "switch_intent M e r db =
             Inr (reply_200 r
                    (if 0 < length found
                     then ''Here are your current tasks: '' @ join ''. '' (map render_task found)
                     else ''You have no pending tasks matching that description.''), db)"
    using assms(4) by (simp add: switch_intent_def Let_def T D F split del: if_split)
  have R: "render_task = (\<lambda>t. to_string (Task.description t)
                                 @ (if truthy (Task.time t)
                                    then '' at '' @ to_string (Task.time t) else []))"
    by (rule ext) (simp add: render_task_def)
  have P: "process_speech M e input r db =
             (reply_200 r
                (if 0 < length found
                 then ''Here are your current tasks: '' @ join ''. '' (map render_task found)
                 else ''You have no pending tasks matching that description.''),
              db, mismatch_warnings r)"
    using assms(1-4) by (simp add: process_speech_classified S)
  have "fst (process_speech M e input r db) =
              \<lparr>status = 200,
               message =
                 (if found = [] then ''You have no pending tasks matching that description.''
                  else ''Here are your current tasks: ''
                       @ join ''. ''
                           (map (\<lambda>t. to_string (Task.description t)
                                       @ (if truthy (Task.time t)
                                          then '' at '' @ to_string (Task.time t) else []))
                                found)),
               details = None, Response.intent = Some ''get_tasks'',
               Response.entities = Some (GeminiResponse.entities r)\<rparr>"
    using assms(4) by (simp add: P reply_200_def R)
  moreover have "fst (snd (process_speech M e input r db)) = db"
    by (simp add: P)
  moreover have "sorted_wrt (\<lambda>a b. Task.createdAt b \<le> Task.createdAt a) found"
    by (simp add: found_def sorted_sort_newest_first)
  moreover have "set found = {t \<in> set (tasks db). wanted t}"
    by (auto simp: found_def set_sort_newest_first)
  ultimately show ?thesis
    unfolding Let_def wanted_def[symmetric] found_def[symmetric] by blast
qed

theorem get_tasks_listing_witness:
  "js_trim ''Remind me to call the doctor tomorrow'' \<noteq> []
   \<and> \<not> truthy (error morning_milk_request)
   \<and> GeminiResponse.intent morning_milk_request = ''get_tasks''
   \<and> store_fault dev_env = None
   \<and> GeminiEntities.time (GeminiResponse.entities morning_milk_request) = Some ''MORN''
   \<and> GeminiEntities.description (GeminiResponse.entities morning_milk_request)
       = Some ''eggs Milk''
   \<and> list_all (\<lambda>c. \<not> is_regexp_syntax c \<and> c \<noteq> CHR ''|'') ''MORN''
   \<and> list_all (\<lambda>c. \<not> is_regexp_syntax c \<and> c \<noteq> CHR ''|'') ''eggs Milk''
   \<and> tasks sample_store = [buy_milk, milk, done_task, morning_eggs]
   \<and> fst (process_speech models dev_env
             (Some (JString ''Remind me to call the doctor tomorrow''))
             morning_milk_request sample_store)
       = \<lparr>status = 200,
          message = ''Here are your current tasks: ''
                    @ ''boil EGGS at this Morning. buy milk at morning'',
          details = None, Response.intent = Some ''get_tasks'',
          Response.entities = Some (GeminiResponse.entities morning_milk_request)\<rparr>
   \<and> fst (snd (process_speech models dev_env
                  (Some (JString ''Remind me to call the doctor tomorrow''))
                  morning_milk_request sample_store)) = sample_store"
proof -
  have a: "\<not> truthy (error morning_milk_request)"
    and b: "GeminiResponse.intent morning_milk_request = ''get_tasks''"
    and c: "store_fault dev_env = None"
    and d: "GeminiEntities.time (GeminiResponse.entities morning_milk_request) = Some ''MORN''"
    and f: "GeminiEntities.description (GeminiResponse.entities morning_milk_request)
              = Some ''eggs Milk''"
    by (simp_all add: morning_milk_request_def dev_env_def truthy_def)
  have g: "list_all (\<lambda>c. \<not> is_regexp_syntax c \<and> c \<noteq> CHR ''|'') ''MORN''"
    and h: "list_all (\<lambda>c. \<not> is_regexp_syntax c \<and> c \<noteq> CHR ''|'') ''eggs Milk''"
    by (simp_all add: is_regexp_syntax_def)
  have g': "\<forall>c\<in>set (to_string (Some ''MORN'')). \<not> is_regexp_syntax c \<and> c \<noteq> CHR ''|''"
    and h': "\<forall>c\<in>set (to_string (Some ''eggs Milk'')). \<not> is_regexp_syntax c \<and> c \<noteq> CHR ''|''"
    by (simp_all add: is_regexp_syntax_def to_string_def)
  have k: "tasks sample_store = [buy_milk, milk, done_task, morning_eggs]"
    by (simp add: sample_store_def)
  note L = get_tasks_listing[OF refl sample_text a b c d f g' h',
      where M = models and db = sample_store, unfolded Let_def]
  have st: "fst (snd (process_speech models dev_env
                  (Some (JString ''Remind me to call the doctor tomorrow''))
                  morning_milk_request sample_store)) = sample_store"
    by (rule L[THEN conjunct2, THEN conjunct1])
  have m: "fst (process_speech models dev_env
             (Some (JString ''Remind me to call the doctor tomorrow''))
             morning_milk_request sample_store)
       = \<lparr>status = 200,
          message = ''Here are your current tasks: ''
                    @ ''boil EGGS at this Morning. buy milk at morning'',
          details = None, Response.intent = Some ''get_tasks'',
          Response.entities = Some (GeminiResponse.entities morning_milk_request)\<rparr>"
    by code_simp
  show ?thesis
    by (intro conjI sample_text a b c d f g h k m st)
qed

end
